theory Spec2Isabelle
  imports Main
begin

text \<open>
  A model of the request pipeline of the traffic library: the media-type descriptor
  (\<^verbatim>\<open>mime.ts\<close>), the issue registry (\<^verbatim>\<open>issues.ts\<close>), and the codec, the response
  dispatcher, the issue responses and the compiled route of \<^verbatim>\<open>traffic.ts\<close>. An
  asynchronous function is the value it resolves to, or the exception it rejects with,
  together with what it wrote to the console.
\<close>

section \<open>Values, exceptions and console output\<close>

text \<open>
  The values that flow through the pipeline as \<^verbatim>\<open>unknown\<close> or \<^verbatim>\<open>any\<close>: raw
  parameters, schema outputs, decoded bodies, response payloads. Numbers are integers
  (the pipeline only produces status codes); the properties of an object are kept as an
  association list.
\<close>

datatype jsvalue =
    JUndefined
  | JNull
  | JBool bool
  | JNumber int
  | JString string
  | JArray "jsvalue list"
  | JObject "(string \<times> jsvalue) list"

type_synonym props = "(string \<times> jsvalue) list"

text \<open>
  A thrown exception. \<open>Error\<close> carries the message the source gives to \<^verbatim>\<open>new Error\<close>;
  \<open>TypeError\<close> is raised by the engine or by a library, and its text names the
  expression that failed.
\<close>

datatype exn = Error string | TypeError string | SyntaxError string

datatype zod_issue = ZodIssue (message: string)

datatype zod_error = ZodError (zod_issues: "zod_issue list")

datatype cause = ZodCause zod_error | ExnCause exn

text \<open>
  What a request leaves behind besides its result: each \<^verbatim>\<open>console.error(new Error(msg,
  {cause}))\<close>, and the call of the route handler.
\<close>

datatype event = ConsoleError string "cause option" | HandlerInvoked

type_synonym 'a io = "(exn + 'a) \<times> event list"

section \<open>External collaborators\<close>

text \<open>
  \<^verbatim>\<open>safeParse\<close> of the schema engine: \<^verbatim>\<open>{success: true, data}\<close> or
  \<^verbatim>\<open>{success: false, error}\<close>. A schema (a \<^verbatim>\<open>ZodType\<close>) is the function its
  \<^verbatim>\<open>safeParse\<close> computes.
\<close>

datatype parse_result = Success jsvalue | Failure zod_error

type_synonym zod_type = "jsvalue \<Rightarrow> parse_result"

text \<open>The object returned by \<^verbatim>\<open>parse\<close> of the content-type package.\<close>

record media_type =
  ptype :: string
  parameters :: "(string \<times> string) list"

text \<open>
  The libraries and built-ins the source calls but does not define. Every function of
  the model takes them as the parameter \<open>P\<close>.
  \<^item> \<open>content_type_parse\<close>: \<^verbatim>\<open>parse\<close> of content-type, which throws on a value that is
    not a media type;
  \<^item> \<open>z_string\<close>, \<open>z_literal\<close>, \<open>z_object\<close>: the schema constructors of zod;
  \<^item> \<open>JSON_stringify\<close>: \<^verbatim>\<open>JSON.stringify\<close>, \<open>None\<close> where it returns \<^verbatim>\<open>undefined\<close>;
  \<^item> \<open>String_of\<close>: the string coercion \<^verbatim>\<open>String(v)\<close> of a value that is not a string;
  \<^item> \<open>request_json\<close>, \<open>request_formData\<close>: \<^verbatim>\<open>request.json()\<close> and
    \<^verbatim>\<open>request.formData()\<close> as functions of the body text.
\<close>

record platform =
  content_type_parse :: "string \<Rightarrow> exn + media_type"
  z_string :: zod_type
  z_literal :: "string \<Rightarrow> zod_type"
  z_object :: "(string \<times> zod_type) list \<Rightarrow> zod_type"
  JSON_stringify :: "jsvalue \<Rightarrow> string option"
  String_of :: "jsvalue \<Rightarrow> string"
  request_json :: "string \<Rightarrow> exn + jsvalue"
  request_formData :: "string \<Rightarrow> exn + jsvalue"

section \<open>mime.ts\<close>

text \<open>\<^verbatim>\<open>s.split(c)\<close> for a one-character separator: always at least one piece.\<close>

fun split_on :: "char \<Rightarrow> string \<Rightarrow> string list" where
  "split_on c [] = [[]]"
| "split_on c (x # xs) =
     (if x = c then [] # split_on c xs
      else (case split_on c xs of
              [] \<Rightarrow> [[x]]
            | piece # pieces \<Rightarrow> (x # piece) # pieces))"

text \<open>\<^verbatim>\<open>s.split(c, limit)\<close>: the first \<open>limit\<close> pieces of the full split.\<close>

definition js_split :: "char \<Rightarrow> string \<Rightarrow> nat \<Rightarrow> string list" where
  "js_split c s limit = take limit (split_on c s)"

text \<open>Array destructuring: element \<open>i\<close>, or \<^verbatim>\<open>undefined\<close> past the end.\<close>

definition element :: "'a list \<Rightarrow> nat \<Rightarrow> 'a option" where
  "element xs i = (if i < length xs then Some (xs ! i) else None)"

text \<open>\<^verbatim>\<open>!x\<close> for \<^verbatim>\<open>x: string | undefined\<close>: undefined and the empty string are falsy.\<close>

definition falsy :: "string option \<Rightarrow> bool" where
  "falsy x = (case x of None \<Rightarrow> True | Some s \<Rightarrow> s = [])"

record mime =
  mime_type :: string
  media :: string
  subtype :: string
  protocol :: string
  suffix :: "string option"
  mime_params :: "(string \<times> string) list"

definition Mime :: "platform \<Rightarrow> string \<Rightarrow> exn + mime" where
  "Mime P mimeType =
     (case content_type_parse P mimeType of
        Inl e \<Rightarrow> Inl e
      | Inr parsed \<Rightarrow>
          (let by_slash = js_split CHR ''/'' (ptype parsed) 2;
               by_plus = js_split CHR ''+'' (ptype parsed) 2;
               media = element by_slash 0;
               subtype = element by_slash 1;
               protocol = element by_plus 0;
               suffix = element by_plus 1
           in if falsy media \<or> falsy subtype \<or> falsy protocol \<or> falsy suffix
              then Inl (Error ''Invalid mime type.'')
              else Inr \<lparr> mime_type = ptype parsed,
                         media = the media,
                         subtype = the subtype,
                         protocol = the protocol,
                         suffix = suffix,
                         mime_params = parameters parsed \<rparr>))"

text \<open>\<^verbatim>\<open>mime?.suffix ?? mime?.subtype\<close> for a constructed descriptor.\<close>

definition codec_key :: "mime \<Rightarrow> string" where
  "codec_key m = (case suffix m of Some s \<Rightarrow> s | None \<Rightarrow> subtype m)"

section \<open>Requests and the content codec (traffic.ts, static methods)\<close>

text \<open>
  A request as the pipeline reads it: \<open>headers_get\<close> is \<^verbatim>\<open>request.headers.get\<close>,
  \<open>searchParams_get\<close> is \<^verbatim>\<open>new URL(request.url).searchParams.get\<close>, \<open>body_text\<close> is
  the body.
\<close>

record request =
  headers_get :: "string \<rightharpoonup> string"
  searchParams_get :: "string \<rightharpoonup> string"
  body_text :: string

text \<open>
  \<^verbatim>\<open>Traffic.parse\<close>: \<open>Inr None\<close> is \<^verbatim>\<open>null\<close>, \<open>Inr (Some v)\<close> is \<^verbatim>\<open>{value: v}\<close>, \<open>Inl\<close> a
  rejected promise. An absent or empty Content-Type builds no descriptor and reaches no
  case of the switch.
\<close>

definition parse :: "platform \<Rightarrow> request \<Rightarrow> exn + jsvalue option" where
  "parse P request =
     (case headers_get request ''Content-Type'' of
        None \<Rightarrow> Inr None
      | Some contentType \<Rightarrow>
          if contentType = [] then Inr None
          else (case Mime P contentType of
                  Inl e \<Rightarrow> Inl e
                | Inr m \<Rightarrow>
                    if codec_key m = ''json'' then
                      (case request_json P (body_text request) of
                         Inl e \<Rightarrow> Inl e
                       | Inr v \<Rightarrow> Inr (Some v))
                    else if codec_key m = ''plain'' then
                      Inr (Some (JString (body_text request)))
                    else if codec_key m = ''form-data'' then
                      (case request_formData P (body_text request) of
                         Inl e \<Rightarrow> Inl e
                       | Inr v \<Rightarrow> Inr (Some v))
                    else Inr None))"

text \<open>\<^verbatim>\<open>String(data)\<close>: a string is itself.\<close>

definition js_String :: "platform \<Rightarrow> jsvalue \<Rightarrow> string" where
  "js_String P v = (case v of JString s \<Rightarrow> s | _ \<Rightarrow> String_of P v)"

text \<open>A value typed \<^verbatim>\<open>string\<close> that may be \<^verbatim>\<open>undefined\<close> at run time.\<close>

definition string_or_undefined :: "string option \<Rightarrow> jsvalue" where
  "string_or_undefined r = (case r of None \<Rightarrow> JUndefined | Some s \<Rightarrow> JString s)"

text \<open>
  \<^verbatim>\<open>Traffic.seralize\<close> (the source's spelling): \<open>Inr None\<close> is \<^verbatim>\<open>null\<close>, \<open>Inr (Some v)\<close> is
  \<^verbatim>\<open>{value: v}\<close>.
\<close>

definition seralize :: "platform \<Rightarrow> jsvalue \<Rightarrow> string \<Rightarrow> exn + jsvalue option" where
  "seralize P data type =
     (if type = [] then Inr None
      else (case Mime P type of
              Inl e \<Rightarrow> Inl e
            | Inr m \<Rightarrow>
                if codec_key m = ''json'' then
                  Inr (Some (string_or_undefined (JSON_stringify P data)))
                else if codec_key m = ''plain'' then
                  Inr (Some (JString (js_String P data)))
                else Inr None))"

section \<open>issues.ts\<close>

text \<open>
  \<open>issue_init\<close> is \<^verbatim>\<open>Omit<Issue, "code">\<close>, what a factory returns: \<open>deflected\<close> and
  \<open>headers\<close> are optional, \<open>extra\<close> holds the factory's own fields.
\<close>

record issue_init =
  status :: nat
  deflected :: "bool option"
  headers :: "(string \<times> string) list option"
  extra :: props

record issue = issue_init +
  code :: string

text \<open>A factory's arguments: a \<^verbatim>\<open>ZodError\<close> or any other value.\<close>

datatype arg = ErrorArg zod_error | ValueArg jsvalue

type_synonym issue_factory = "arg list \<Rightarrow> exn + issue_init"

type_synonym issue_map = "string \<rightharpoonup> issue_factory"

text \<open>
  \<^verbatim>\<open>Issues.new\<close>. An unregistered code calls \<^verbatim>\<open>undefined\<close>; a factory's exception
  propagates; \<^verbatim>\<open>issue.deflected ??= false\<close> fills an absent flag only.
\<close>

definition Issues_new :: "issue_map \<Rightarrow> string \<Rightarrow> arg list \<Rightarrow> exn + issue" where
  "Issues_new issues c args =
     (case issues c of
        None \<Rightarrow> Inl (TypeError ''this.issues[code] is not a function'')
      | Some factory \<Rightarrow>
          (case factory args of
             Inl e \<Rightarrow> Inl e
           | Inr i \<Rightarrow>
               Inr \<lparr> status = status i,
                     deflected = Some (case deflected i of None \<Rightarrow> False | Some b \<Rightarrow> b),
                     headers = headers i,
                     extra = extra i,
                     code = c \<rparr>))"

definition override :: "issue_map \<Rightarrow> string \<Rightarrow> issue_factory \<Rightarrow> issue_map" where
  "override issues c factory = issues(c \<mapsto> factory)"

definition zod_issue_value :: "zod_issue \<Rightarrow> jsvalue" where
  "zod_issue_value i = JObject [(''message'', JString (message i))]"

text \<open>
  The four factories of a schema rejection share one body. \<^verbatim>\<open>error.issues[0]!.message\<close>
  throws when the list is empty, and \<^verbatim>\<open>error.issues\<close> throws when no error is passed.
\<close>

definition invalid_factory :: issue_factory where
  "invalid_factory args =
     (case args of
        ErrorArg error # _ \<Rightarrow>
          (case zod_issues error of
             [] \<Rightarrow> Inl (TypeError ''error.issues[0] is undefined'')
           | first # _ \<Rightarrow>
               Inr \<lparr> status = 400,
                     deflected = Some True,
                     headers = None,
                     extra = [(''description'', JString (message first)),
                              (''issues'', JArray (map zod_issue_value (zod_issues error)))] \<rparr>)
      | _ \<Rightarrow> Inl (TypeError ''error.issues is undefined''))"

definition unsupported_content_type_factory :: issue_factory where
  "unsupported_content_type_factory args =
     Inr \<lparr> status = 400,
           deflected = Some True,
           headers = None,
           extra = [(''description'', JString ''Request content type is not supported.''),
                    (''supported'', (case args of ValueArg supported # _ \<Rightarrow> supported
                                                | _ \<Rightarrow> JUndefined))] \<rparr>"

definition unsupported_content_factory :: issue_factory where
  "unsupported_content_factory args =
     Inr \<lparr> status = 400,
           deflected = Some False,
           headers = None,
           extra = [(''description'',
                     JString ''Server is unable to parse the provided content.'')] \<rparr>"

definition unknown_factory :: issue_factory where
  "unknown_factory args =
     Inr \<lparr> status = 500,
           deflected = Some False,
           headers = None,
           extra = [(''description'', JString ''Unknown server error.'')] \<rparr>"

definition trafficIssues :: issue_map where
  "trafficIssues =
     [ ''/traffic/request/invalid-params'' \<mapsto> invalid_factory,
       ''/traffic/request/invalid-query'' \<mapsto> invalid_factory,
       ''/traffic/request/invalid-headers'' \<mapsto> invalid_factory,
       ''/traffic/request/invalid-content'' \<mapsto> invalid_factory,
       ''/traffic/request/unsupported-content-type'' \<mapsto> unsupported_content_type_factory,
       ''/traffic/request/unsupported-content'' \<mapsto> unsupported_content_factory,
       ''/traffic/unknown'' \<mapsto> unknown_factory ]"

text \<open>
  An issue as the value handed to the codec: its fields as the properties of one object.
  The codec passes the object to \<^verbatim>\<open>JSON.stringify\<close> or \<^verbatim>\<open>String\<close>, which belong to the
  platform, so the order of the properties plays no part below.
\<close>

definition issue_value :: "issue \<Rightarrow> jsvalue" where
  "issue_value i =
     JObject ([(''status'', JNumber (int (status i)))]
              @ (case deflected i of None \<Rightarrow> [] | Some b \<Rightarrow> [(''deflected'', JBool b)])
              @ (case headers i of
                   None \<Rightarrow> []
                 | Some hs \<Rightarrow> [(''headers'', JObject (map (\<lambda>(k, v). (k, JString v)) hs))])
              @ extra i
              @ [(''code'', JString (code i))])"

section \<open>The Traffic instance (traffic.ts)\<close>

text \<open>
  The fields of an instance that the route reads. Its \<^verbatim>\<open>parse\<close> and \<^verbatim>\<open>serialize\<close>
  fields are initialised to the static methods and are modelled as these.
\<close>

record traffic =
  issues :: issue_map
  defaultResponseType :: string

text \<open>The constructor: \<^verbatim>\<open>{...trafficIssues, ...options?.issues}\<close>.\<close>

definition Traffic :: "issue_map option \<Rightarrow> traffic" where
  "Traffic options =
     \<lparr> issues = trafficIssues ++ (case options of None \<Rightarrow> Map.empty | Some custom \<Rightarrow> custom),
       defaultResponseType = ''application/json'' \<rparr>"

text \<open>
  A response is what \<^verbatim>\<open>new Response(body, init)\<close> was given: the body (\<open>JUndefined\<close>: no
  body) and the properties of the init object. The constructor belongs to the platform;
  its own checks (a status outside 200 to 599 is refused) are not part of the model.
\<close>

record response =
  body :: jsvalue
  init :: props

definition response_status :: "response \<Rightarrow> jsvalue option" where
  "response_status r = map_of (init r) ''status''"

text \<open>Writing a property of an object literal: an existing key keeps its place.\<close>

fun set_prop :: "string \<Rightarrow> jsvalue \<Rightarrow> props \<Rightarrow> props" where
  "set_prop k v [] = [(k, v)]"
| "set_prop k v ((k', v') # ps) =
     (if k = k' then (k, v) # ps else (k', v') # set_prop k v ps)"

text \<open>
  \<^verbatim>\<open>traffic.response\<close>: \<^verbatim>\<open>{status, ...(headers && {...headers})}\<close> spreads the own
  properties of \<open>headers\<close> into the init object itself (\<open>None\<close>: \<^verbatim>\<open>undefined\<close>).
\<close>

definition Traffic_response :: "nat \<Rightarrow> jsvalue \<Rightarrow> props option \<Rightarrow> response" where
  "Traffic_response st b hdrs =
     \<lparr> body = b,
       init = fold (\<lambda>(k, v). set_prop k v)
                (case hdrs of None \<Rightarrow> [] | Some h \<Rightarrow> h)
                [(''status'', JNumber (int st))] \<rparr>"

section \<open>Route definitions (types.ts)\<close>

text \<open>\<^verbatim>\<open>true | z.ZodType\<close> for a parameter or query field.\<close>

datatype field_schema = AnyString | Schema zod_type

text \<open>\<^verbatim>\<open>string | z.ZodType\<close> for a header.\<close>

datatype header_schema = Literal string | HeaderSchema zod_type

text \<open>\<^verbatim>\<open>z.ZodType | z.ZodRawShape\<close>.\<close>

datatype content_def = ContentType zod_type | RawShape "(string \<times> zod_type) list"

text \<open>The two cases of \<^verbatim>\<open>MessageDefinition\<close>: \<^verbatim>\<open>raw: true\<close>, or a content schema.\<close>

datatype message_body = Raw | Content content_def

text \<open>\<^verbatim>\<open>T | readonly T[]\<close>, and \<^verbatim>\<open>isArray(x) ? x : [x]\<close>.\<close>

datatype 'a one_or_many = One 'a | Many "'a list"

definition toArray :: "'a one_or_many \<Rightarrow> 'a list" where
  "toArray x = (case x of One a \<Rightarrow> [a] | Many as \<Rightarrow> as)"

text \<open>
  The fields of a definition that \<^verbatim>\<open>route\<close> reads. A schema map is the list of its
  entries in the order of \<^verbatim>\<open>Object.entries\<close>; \<open>None\<close> is an undeclared map.
\<close>

record request_def =
  request_mime :: "string one_or_many"
  request_body :: message_body
  request_params :: "(string \<times> field_schema) list option"
  request_query :: "(string \<times> field_schema) list option"
  request_headers :: "(string \<times> header_schema) list option"

record response_def =
  response_code :: nat
  response_mime :: "string one_or_many"
  response_body :: message_body

record route_def =
  def_request :: request_def
  def_response :: "response_def one_or_many"

section \<open>The compiled route (traffic.ts, \<^verbatim>\<open>Traffic.route\<close>)\<close>

text \<open>Line 89: the Accept header, or the default of the instance that compiled the route.\<close>

definition accept_of :: "traffic \<Rightarrow> request \<Rightarrow> string" where
  "accept_of this request =
     (case headers_get request ''Accept'' of
        None \<Rightarrow> defaultResponseType this
      | Some a \<Rightarrow> a)"

text \<open>
  Lines 127 to 150, \<^verbatim>\<open>issueResponseFactory\<close>: the codec's exception and its \<^verbatim>\<open>null\<close>
  are both logged, and the response is built in every case, with \<^verbatim>\<open>result?.value\<close> as
  its body.
\<close>

definition issueResponseFactory ::
  "platform \<Rightarrow> traffic \<Rightarrow> string \<Rightarrow> issue \<Rightarrow> props option \<Rightarrow> response io" where
  "issueResponseFactory P traffic accept i hdrs =
     (let ini = [(''status'', JNumber (int (status i))),
                 (''headers'', (case hdrs of None \<Rightarrow> JUndefined | Some h \<Rightarrow> JObject h))]
      in case seralize P (issue_value i) accept of
           Inr None \<Rightarrow>
             (Inr \<lparr> body = JUndefined, init = ini \<rparr>,
              [ConsoleError ''Failed to serialize issue response.'' None])
         | Inr (Some v) \<Rightarrow> (Inr \<lparr> body = v, init = ini \<rparr>, [])
         | Inl error \<Rightarrow>
             (Inr \<lparr> body = JUndefined, init = ini \<rparr>,
              [ConsoleError ''Failed to serialize issue response.'' (Some (ExnCause error))]))"

text \<open>
  The recurring pair \<^verbatim>\<open>const issue = traffic.issues.new(code, ...args); return
  issueResponseFactory(issue)\<close>.
\<close>

definition issue_return ::
  "platform \<Rightarrow> traffic \<Rightarrow> string \<Rightarrow> string \<Rightarrow> arg list \<Rightarrow> response io" where
  "issue_return P traffic accept c args =
     (case Issues_new (issues traffic) c args of
        Inl e \<Rightarrow> (Inl e, [])
      | Inr i \<Rightarrow> issueResponseFactory P traffic accept i None)"

definition content_shape :: "platform \<Rightarrow> content_def \<Rightarrow> zod_type" where
  "content_shape P c = (case c of ContentType s \<Rightarrow> s | RawShape sh \<Rightarrow> z_object P sh)"

text \<open>
  Lines 91 to 125, \<^verbatim>\<open>responseFactory\<close>. \<^verbatim>\<open>r.mime === type\<close> holds only for a
  definition whose mime is that one string; when \<^verbatim>\<open>find\<close> returns \<^verbatim>\<open>undefined\<close>,
  reading \<^verbatim>\<open>def.raw\<close> throws.
\<close>

definition responseFactory ::
  "platform \<Rightarrow> traffic \<Rightarrow> route_def \<Rightarrow> string \<Rightarrow>
   nat \<Rightarrow> string \<Rightarrow> jsvalue \<Rightarrow> props option \<Rightarrow> response io" where
  "responseFactory P traffic defn accept st type rawData hdrs =
     (case find (\<lambda>r. response_code r = st \<and> response_mime r = One type)
             (toArray (def_response defn)) of
        None \<Rightarrow> (Inl (TypeError ''def is undefined (reading raw)''), [])
      | Some d \<Rightarrow>
          (case response_body d of
             Raw \<Rightarrow> (Inr (Traffic_response st rawData hdrs), [])
           | Content c \<Rightarrow>
               (case content_shape P c rawData of
                  Success data \<Rightarrow> (Inr (Traffic_response st data hdrs), [])
                | Failure error \<Rightarrow>
                    (case Issues_new (issues traffic) ''/traffic/unknown'' [] of
                       Inl e \<Rightarrow>
                         (Inl e,
                          [ConsoleError ''Response content is invalid.'' (Some (ZodCause error))])
                     | Inr i \<Rightarrow>
                         (case issueResponseFactory P traffic accept i None of
                            (result, events) \<Rightarrow>
                              (result,
                               ConsoleError ''Response content is invalid.''
                                 (Some (ZodCause error)) # events))))))"

subsection \<open>Stages 1 to 3: params, query, headers\<close>

text \<open>
  The loop that lines 153 to 167, 173 to 187 and 193 to 209 each write out: an entry's
  value is looked up, parsed by the entry's shape and stored under its key; the first
  failure ends the loop with its error.
\<close>

fun validate_entries ::
  "('s \<Rightarrow> zod_type) \<Rightarrow> (string \<Rightarrow> jsvalue) \<Rightarrow> (string \<times> 's) list \<Rightarrow>
   (string \<rightharpoonup> jsvalue) \<Rightarrow> zod_error + (string \<rightharpoonup> jsvalue)" where
  "validate_entries shape_of lookup [] out = Inr out"
| "validate_entries shape_of lookup ((key, schema) # rest) out =
     (case shape_of schema (lookup key) of
        Success data \<Rightarrow> validate_entries shape_of lookup rest (out(key \<mapsto> data))
      | Failure error \<Rightarrow> Inl error)"

text \<open>\<^verbatim>\<open>schema === true ? z.string() : schema\<close>.\<close>

definition field_shape :: "platform \<Rightarrow> field_schema \<Rightarrow> zod_type" where
  "field_shape P schema = (case schema of AnyString \<Rightarrow> z_string P | Schema s \<Rightarrow> s)"

text \<open>\<^verbatim>\<open>typeof schema === "string" ? z.literal(schema) : schema\<close>.\<close>

definition header_shape :: "platform \<Rightarrow> header_schema \<Rightarrow> zod_type" where
  "header_shape P schema = (case schema of Literal s \<Rightarrow> z_literal P s | HeaderSchema s \<Rightarrow> s)"

text \<open>\<^verbatim>\<open>rawParams[key]\<close>: a string or \<^verbatim>\<open>undefined\<close>.\<close>

definition rawParams_value :: "(string \<rightharpoonup> string) \<Rightarrow> string \<Rightarrow> jsvalue" where
  "rawParams_value rawParams key =
     (case rawParams key of None \<Rightarrow> JUndefined | Some s \<Rightarrow> JString s)"

text \<open>\<^verbatim>\<open>searchParams.get(key)\<close>: a string or \<^verbatim>\<open>null\<close>.\<close>

definition searchParams_value :: "request \<Rightarrow> string \<Rightarrow> jsvalue" where
  "searchParams_value request key =
     (case searchParams_get request key of None \<Rightarrow> JNull | Some s \<Rightarrow> JString s)"

text \<open>
  A stage either ends the request (\<open>Inl\<close>: the value the route returns, a response or an
  exception, with what was logged) or hands its output on (\<open>Inr\<close>).
\<close>

definition params_stage ::
  "platform \<Rightarrow> traffic \<Rightarrow> string \<Rightarrow> request_def \<Rightarrow> (string \<rightharpoonup> string) \<Rightarrow>
   response io + (string \<rightharpoonup> jsvalue)" where
  "params_stage P traffic accept rd rawParams =
     (case request_params rd of
        None \<Rightarrow> Inr Map.empty
      | Some entries \<Rightarrow>
          (case validate_entries (field_shape P) (rawParams_value rawParams) entries Map.empty of
             Inl error \<Rightarrow>
               Inl (issue_return P traffic accept ''/traffic/request/invalid-params''
                      [ErrorArg error])
           | Inr params \<Rightarrow> Inr params))"

definition query_stage ::
  "platform \<Rightarrow> traffic \<Rightarrow> string \<Rightarrow> request_def \<Rightarrow> request \<Rightarrow>
   response io + (string \<rightharpoonup> jsvalue)" where
  "query_stage P traffic accept rd request =
     (case request_query rd of
        None \<Rightarrow> Inr Map.empty
      | Some entries \<Rightarrow>
          (case validate_entries (field_shape P) (searchParams_value request) entries Map.empty of
             Inl error \<Rightarrow>
               Inl (issue_return P traffic accept ''/traffic/request/invalid-query''
                      [ErrorArg error])
           | Inr query \<Rightarrow> Inr query))"

text \<open>Lines 190 to 210: the value of a header is \<^verbatim>\<open>searchParams.get(key)\<close> too.\<close>

definition headers_stage ::
  "platform \<Rightarrow> traffic \<Rightarrow> string \<Rightarrow> request_def \<Rightarrow> request \<Rightarrow>
   response io + (string \<rightharpoonup> jsvalue)" where
  "headers_stage P traffic accept rd request =
     (case request_headers rd of
        None \<Rightarrow> Inr Map.empty
      | Some entries \<Rightarrow>
          (case validate_entries (header_shape P) (searchParams_value request) entries Map.empty of
             Inl error \<Rightarrow>
               Inl (issue_return P traffic accept ''/traffic/request/invalid-headers''
                      [ErrorArg error])
           | Inr hs \<Rightarrow> Inr hs))"

subsection \<open>Stage 4: content-type compatibility\<close>

text \<open>
  Lines 212 and 213: the descriptor of the Content-Type header; none for an absent or
  empty header; the constructor's exception is not caught.
\<close>

definition request_descriptor :: "platform \<Rightarrow> request \<Rightarrow> exn + mime option" where
  "request_descriptor P request =
     (case headers_get request ''Content-Type'' of
        None \<Rightarrow> Inr None
      | Some rawContentType \<Rightarrow>
          if rawContentType = [] then Inr None
          else (case Mime P rawContentType of
                  Inl e \<Rightarrow> Inl e
                | Inr m \<Rightarrow> Inr (Some m)))"

text \<open>Line 218: \<^verbatim>\<open>contentType?.type ?? "application/octet-stream"\<close>.\<close>

definition effective_type :: "mime option \<Rightarrow> string" where
  "effective_type contentType =
     (case contentType of None \<Rightarrow> ''application/octet-stream'' | Some m \<Rightarrow> mime_type m)"

text \<open>Line 219: \<^verbatim>\<open>type.split("+", 2).pop()!\<close>, the last of at most two pieces.\<close>

definition lookup_subtype :: "string \<Rightarrow> string" where
  "lookup_subtype type = last (js_split CHR ''+'' type 2)"

text \<open>
  Lines 221 to 232. The rejection is built by hand: \<^verbatim>\<open>JSON.stringify\<close> of the issue as
  the body, and its status.
\<close>

definition content_type_stage ::
  "platform \<Rightarrow> traffic \<Rightarrow> request_def \<Rightarrow> request \<Rightarrow> response io + string" where
  "content_type_stage P traffic rd request =
     (case request_descriptor P request of
        Inl e \<Rightarrow> Inl (Inl e, [])
      | Inr contentType \<Rightarrow>
          (let type = effective_type contentType;
               subtype = lookup_subtype type;
               supportedTypes = toArray (request_mime rd)
           in if subtype \<notin> set supportedTypes then
                (case Issues_new (issues traffic) ''/traffic/request/unsupported-content-type''
                        [ValueArg (JArray (map JString supportedTypes))] of
                   Inl e \<Rightarrow> Inl (Inl e, [])
                 | Inr error \<Rightarrow>
                     Inl (Inr \<lparr> body = string_or_undefined (JSON_stringify P (issue_value error)),
                                init = [(''status'', JNumber (int (status error)))] \<rparr>,
                          []))
              else Inr type))"

subsection \<open>Stage 5: body\<close>

text \<open>
  Lines 234 to 263. A rejected promise of \<^verbatim>\<open>traffic.parse\<close> is not caught; its \<^verbatim>\<open>null\<close>
  is the unsupported-content issue.
\<close>

definition body_stage ::
  "platform \<Rightarrow> traffic \<Rightarrow> string \<Rightarrow> request_def \<Rightarrow> request \<Rightarrow> string \<Rightarrow>
   response io + (string \<times> jsvalue) option" where
  "body_stage P traffic accept rd request type =
     (case request_body rd of
        Raw \<Rightarrow> Inr None
      | Content c \<Rightarrow>
          (case parse P request of
             Inl e \<Rightarrow> Inl (Inl e, [])
           | Inr None \<Rightarrow>
               Inl (issue_return P traffic accept ''/traffic/request/unsupported-content'' [])
           | Inr (Some value1) \<Rightarrow>
               (case content_shape P c value1 of
                  Success data \<Rightarrow> Inr (Some (type, data))
                | Failure error \<Rightarrow>
                    Inl (issue_return P traffic accept ''/traffic/request/invalid-content''
                           [ErrorArg error]))))"

subsection \<open>The handler and the route\<close>

text \<open>\<^verbatim>\<open>RawRouteContext\<close>, the argument of a compiled route.\<close>

record raw_route_context =
  raw_params :: "string \<rightharpoonup> string"
  raw_request :: request
  raw_traffic :: traffic

text \<open>
  \<^verbatim>\<open>RequestContext\<close>, the argument of the handler (its \<^verbatim>\<open>url\<close> is the request's). The
  bound operations are the two closures of the route.
\<close>

record request_context =
  ctx_request :: request
  ctx_params :: "string \<rightharpoonup> jsvalue"
  ctx_query :: "string \<rightharpoonup> jsvalue"
  ctx_headers :: "string \<rightharpoonup> jsvalue"
  ctx_content :: "(string \<times> jsvalue) option"
  ctx_response :: "nat \<Rightarrow> string \<Rightarrow> jsvalue \<Rightarrow> props option \<Rightarrow> response io"
  ctx_issue :: "issue \<Rightarrow> props option \<Rightarrow> response io"
  ctx_traffic :: traffic

type_synonym route_handler = "request_context \<Rightarrow> response io"

text \<open>
  \<^verbatim>\<open>Traffic.route\<close>: \<open>this\<close> compiled the route, the instance of the raw context serves
  the request. The stages run in the order of the source; the first one that ends the
  request gives the result, and only when all five pass is the handler called.
\<close>

definition route ::
  "platform \<Rightarrow> traffic \<Rightarrow> route_def \<Rightarrow> route_handler \<Rightarrow> raw_route_context \<Rightarrow> response io" where
  "route P this defn handler raw =
     (let rawParams = raw_params raw;
          request = raw_request raw;
          traffic = raw_traffic raw;
          accept = accept_of this request;
          rd = def_request defn
      in case params_stage P traffic accept rd rawParams of
           Inl ended \<Rightarrow> ended
         | Inr params \<Rightarrow>
        (case query_stage P traffic accept rd request of
           Inl ended \<Rightarrow> ended
         | Inr query \<Rightarrow>
        (case headers_stage P traffic accept rd request of
           Inl ended \<Rightarrow> ended
         | Inr hs \<Rightarrow>
        (case content_type_stage P traffic rd request of
           Inl ended \<Rightarrow> ended
         | Inr type \<Rightarrow>
        (case body_stage P traffic accept rd request type of
           Inl ended \<Rightarrow> ended
         | Inr content \<Rightarrow>
             (case handler \<lparr> ctx_request = request,
                             ctx_params = params,
                             ctx_query = query,
                             ctx_headers = hs,
                             ctx_content = content,
                             ctx_response = responseFactory P traffic defn accept,
                             ctx_issue = issueResponseFactory P traffic accept,
                             ctx_traffic = traffic \<rparr> of
                (result, events) \<Rightarrow> (result, HandlerInvoked # events)))))))"

section \<open>Notions used to state the properties\<close>

text \<open>
  Some declared field is rejected: the schema map is declared, and the shape of one of
  its entries fails on the value looked up for the entry's key.
\<close>

definition violates ::
  "('s \<Rightarrow> zod_type) \<Rightarrow> (string \<Rightarrow> jsvalue) \<Rightarrow> (string \<times> 's) list option \<Rightarrow> bool" where
  "violates shape_of lookup declared =
     (case declared of
        None \<Rightarrow> False
      | Some entries \<Rightarrow>
          (\<exists>(key, schema) \<in> set entries.
             case shape_of schema (lookup key) of Failure error \<Rightarrow> True | Success data \<Rightarrow> False))"

text \<open>
  The schema engine reports a rejection with at least one issue; this is the fact that
  \<^verbatim>\<open>error.issues[0]!\<close> in the factories relies on, for the fields of one request.
\<close>

definition rejections_carry_issues ::
  "('s \<Rightarrow> zod_type) \<Rightarrow> (string \<Rightarrow> jsvalue) \<Rightarrow> (string \<times> 's) list option \<Rightarrow> bool" where
  "rejections_carry_issues shape_of lookup declared =
     (case declared of
        None \<Rightarrow> True
      | Some entries \<Rightarrow>
          (\<forall>(key, schema) \<in> set entries.
             case shape_of schema (lookup key) of
               Failure error \<Rightarrow> zod_issues error \<noteq> []
             | Success data \<Rightarrow> True))"

text \<open>
  A response definition declares a (status, mime) pair: it has the status, and the mime is
  its mime string or a member of its mime list. These are the calls that
  \<^verbatim>\<open>ResponseLookup\<close> of \<^verbatim>\<open>types.ts\<close> admits for the definition.
\<close>

definition declares :: "response_def \<Rightarrow> nat \<Rightarrow> string \<Rightarrow> bool" where
  "declares d st type = (response_code d = st \<and> type \<in> set (toArray (response_mime d)))"

section \<open>A concrete platform for the examples\<close>

text \<open>
  Stand-ins for the external collaborators, small enough to evaluate. They cover the
  inputs of the examples only: a header value with a slash and no parameters is its own
  media type; JSON text is written for every value and read back for \<^verbatim>\<open>null\<close> and for
  strings without escapes; string coercion of arrays is not distinguished from that of
  objects.
\<close>

definition sample_parse :: "string \<Rightarrow> exn + media_type" where
  "sample_parse s =
     (if CHR ''/'' \<in> set s \<and> CHR '';'' \<notin> set s
      then Inr \<lparr> ptype = s, parameters = [] \<rparr>
      else Inl (TypeError ''invalid media type''))"

definition sample_string :: zod_type where
  "sample_string v =
     (case v of
        JString s \<Rightarrow> Success (JString s)
      | _ \<Rightarrow> Failure (ZodError [ZodIssue ''Expected string'']))"

definition sample_literal :: "string \<Rightarrow> zod_type" where
  "sample_literal s v =
     (if v = JString s then Success v
      else Failure (ZodError [ZodIssue ''Invalid literal value'']))"

definition sample_object :: "(string \<times> zod_type) list \<Rightarrow> zod_type" where
  "sample_object shape v =
     (case v of
        JObject ps \<Rightarrow>
          (case validate_entries (\<lambda>s. s)
                  (\<lambda>k. case map_of ps k of None \<Rightarrow> JUndefined | Some x \<Rightarrow> x) shape Map.empty of
             Inl e \<Rightarrow> Failure e
           | Inr out \<Rightarrow> Success v)
      | _ \<Rightarrow> Failure (ZodError [ZodIssue ''Expected object'']))"

text \<open>A schema for a numeric path parameter: a non-empty string of decimal digits.\<close>

definition sample_numeric :: zod_type where
  "sample_numeric v =
     (case v of
        JString s \<Rightarrow>
          if s \<noteq> [] \<and> (\<forall>c \<in> set s. c \<in> set ''0123456789'') then Success (JString s)
          else Failure (ZodError [ZodIssue ''Expected number, received nan''])
      | _ \<Rightarrow> Failure (ZodError [ZodIssue ''Expected number, received nan'']))"

fun digits :: "nat \<Rightarrow> string" where
  "digits n =
     (if n < 10 then [char_of (48 + n)]
      else digits (n div 10) @ [char_of (48 + n mod 10)])"

declare digits.simps [simp del]

fun join :: "string list \<Rightarrow> string" where
  "join [] = []"
| "join [x] = x"
| "join (x # y # rest) = x @ '','' @ join (y # rest)"

definition quoted :: "string \<Rightarrow> string" where
  "quoted s = CHR 0x22 # s @ [CHR 0x22]"

fun sample_json :: "jsvalue \<Rightarrow> string" where
  "sample_json JUndefined = ''null''"
| "sample_json JNull = ''null''"
| "sample_json (JBool b) = (if b then ''true'' else ''false'')"
| "sample_json (JNumber n) = (if n < 0 then CHR ''-'' # digits (nat (- n)) else digits (nat n))"
| "sample_json (JString s) = quoted s"
| "sample_json (JArray xs) = ''['' @ join (map sample_json xs) @ '']''"
| "sample_json (JObject ps) =
     ''{'' @ join (map (\<lambda>(k, v). quoted k @ '':'' @ sample_json v)
                   (filter (\<lambda>(k, v). v \<noteq> JUndefined) ps)) @ ''}''"

definition sample_stringify :: "jsvalue \<Rightarrow> string option" where
  "sample_stringify v = (if v = JUndefined then None else Some (sample_json v))"

definition sample_String :: "jsvalue \<Rightarrow> string" where
  "sample_String v =
     (case v of
        JUndefined \<Rightarrow> ''undefined''
      | JArray xs \<Rightarrow> ''[object Object]''
      | JObject ps \<Rightarrow> ''[object Object]''
      | _ \<Rightarrow> sample_json v)"

definition sample_request_json :: "string \<Rightarrow> exn + jsvalue" where
  "sample_request_json b =
     (if b = ''null'' then Inr JNull
      else if 2 \<le> length b \<and> hd b = CHR 0x22 \<and> last b = CHR 0x22
              \<and> CHR 0x22 \<notin> set (butlast (tl b))
           then Inr (JString (butlast (tl b)))
           else Inl (SyntaxError ''Unexpected token''))"

definition sample_platform :: platform where
  "sample_platform =
     \<lparr> content_type_parse = sample_parse,
       z_string = sample_string,
       z_literal = sample_literal,
       z_object = sample_object,
       JSON_stringify = sample_stringify,
       String_of = sample_String,
       request_json = sample_request_json,
       request_formData = (\<lambda>b. Inl (TypeError ''Failed to parse body as FormData.'')) \<rparr>"

text \<open>A request with no headers, no query string and an empty body.\<close>

definition bare_request :: request where
  "bare_request = \<lparr> headers_get = Map.empty, searchParams_get = Map.empty, body_text = [] \<rparr>"

text \<open>A request definition that declares one supported type and nothing else.\<close>

definition accepting :: "string \<Rightarrow> request_def" where
  "accepting t =
     \<lparr> request_mime = One t, request_body = Raw, request_params = None,
       request_query = None, request_headers = None \<rparr>"

text \<open>A handler that answers 204 without touching its context.\<close>

definition idle_handler :: route_handler where
  "idle_handler ctx = (Inr \<lparr> body = JNull, init = [(''status'', JNumber 204)] \<rparr>, [])"

text \<open>A handler that returns what the bound response operation returns for one call.\<close>

definition responding :: "nat \<Rightarrow> string \<Rightarrow> jsvalue \<Rightarrow> props option \<Rightarrow> route_handler" where
  "responding st type rawData hdrs ctx = ctx_response ctx st type rawData hdrs"

text \<open>The raw context of a bare request with no path parameters, on a default instance.\<close>

definition bare_context :: raw_route_context where
  "bare_context =
     \<lparr> raw_params = Map.empty, raw_request = bare_request, raw_traffic = Traffic None \<rparr>"

section \<open>Auxiliary facts\<close>

text \<open>The defining equations that evaluate the model on a concrete request.\<close>

lemmas eval_defs = route_def params_stage_def query_stage_def headers_stage_def
  content_type_stage_def body_stage_def field_shape_def header_shape_def content_shape_def
  rawParams_value_def searchParams_value_def issue_return_def Issues_new_def
  Traffic_def trafficIssues_def invalid_factory_def unsupported_content_type_factory_def
  unsupported_content_factory_def unknown_factory_def issueResponseFactory_def
  responseFactory_def Traffic_response_def parse_def seralize_def js_String_def
  Mime_def js_split_def element_def falsy_def codec_key_def issue_value_def accept_of_def
  string_or_undefined_def zod_issue_value_def response_status_def
  request_descriptor_def effective_type_def lookup_subtype_def toArray_def

lemmas sample_defs = sample_platform_def sample_parse_def sample_string_def sample_literal_def
  sample_object_def sample_stringify_def sample_String_def
  sample_request_json_def quoted_def bare_request_def accepting_def idle_handler_def
  responding_def bare_context_def

lemma split_on_absent: "c \<notin> set s \<Longrightarrow> split_on c s = [s]"
  by (induction s) auto

lemma js_split_absent: "c \<notin> set s \<Longrightarrow> js_split c s 2 = [s]"
  by (simp add: js_split_def split_on_absent)

lemma Mime_without_plus:
  assumes "content_type_parse P t = Inr parsed" and "CHR ''+'' \<notin> set (ptype parsed)"
  shows "Mime P t = Inl (Error ''Invalid mime type.'')"
  using assms by (simp add: Mime_def js_split_absent element_def falsy_def Let_def)

lemma validate_entries_Inl:
  "validate_entries f l es out = Inl e \<Longrightarrow> \<exists>(k, s) \<in> set es. f s (l k) = Failure e"
  by (induction es arbitrary: out) (auto split: parse_result.splits)

lemma validate_entries_Inr:
  "validate_entries f l es out = Inr out' \<Longrightarrow> (k, s) \<in> set es \<Longrightarrow> \<exists>d. f s (l k) = Success d"
  by (induction es arbitrary: out) (auto split: parse_result.splits)

lemma validate_entries_rejects:
  "(k, s) \<in> set es \<Longrightarrow> f s (l k) = Failure e \<Longrightarrow> \<exists>e'. validate_entries f l es out = Inl e'"
  by (induction es arbitrary: out) (auto split: parse_result.splits)

lemma violates_iff:
  "violates f l (Some es) \<longleftrightarrow> (\<exists>e. validate_entries f l es out = Inl e)"
proof
  assume "violates f l (Some es)"
  then obtain k s where ks: "(k, s) \<in> set es" "\<forall>d. f s (l k) \<noteq> Success d"
    by (auto simp: violates_def split: parse_result.splits)
  then obtain e where "f s (l k) = Failure e"
    by (cases "f s (l k)") auto
  with ks(1) show "\<exists>e. validate_entries f l es out = Inl e"
    by (rule validate_entries_rejects)
next
  assume "\<exists>e. validate_entries f l es out = Inl e"
  then obtain e where "validate_entries f l es out = Inl e" ..
  from validate_entries_Inl [OF this] obtain k s
    where "(k, s) \<in> set es" "f s (l k) = Failure e"
    by auto
  then show "violates f l (Some es)"
    unfolding violates_def by (auto intro!: bexI [of _ "(k, s)"])
qed

lemma not_violates_Inr:
  "\<not> violates f l (Some es) \<Longrightarrow> \<exists>out'. validate_entries f l es out = Inr out'"
  using violates_iff [of f l es out] by (cases "validate_entries f l es out") auto

lemma rejection_has_issue:
  assumes "rejections_carry_issues f l (Some es)" and "validate_entries f l es out = Inl e"
  shows "zod_issues e \<noteq> []"
proof -
  from validate_entries_Inl [OF assms(2)] obtain k s
    where "(k, s) \<in> set es" "f s (l k) = Failure e"
    by auto
  with assms(1) show ?thesis
    by (auto simp: rejections_carry_issues_def)
qed

lemma Issues_new_invalid:
  assumes "registry c = Some invalid_factory" and "zod_issues e \<noteq> []"
  shows "\<exists>i. Issues_new registry c [ErrorArg e] = Inr i \<and> code i = c \<and> status i = 400 \<and>
             deflected i = Some True"
  using assms by (cases "zod_issues e") (simp_all add: Issues_new_def invalid_factory_def)

lemma issueResponseFactory_returns:
  "\<exists>r events. issueResponseFactory P traffic accept i hdrs = (Inr r, events) \<and>
     response_status r = Some (JNumber (int (status i))) \<and>
     (body r = JUndefined \<or> seralize P (issue_value i) accept = Inr (Some (body r))) \<and>
     HandlerInvoked \<notin> set events"
  by (cases "seralize P (issue_value i) accept")
     (auto simp: issueResponseFactory_def response_status_def Let_def split: option.splits)

lemma issue_return_invalid:
  assumes "issues traffic c = Some invalid_factory" and "zod_issues e \<noteq> []"
  shows "\<exists>i r events. Issues_new (issues traffic) c [ErrorArg e] = Inr i \<and> code i = c \<and>
           status i = 400 \<and>
           issue_return P traffic accept c [ErrorArg e] = issueResponseFactory P traffic accept i None \<and>
           issue_return P traffic accept c [ErrorArg e] = (Inr r, events) \<and>
           response_status r = Some (JNumber 400) \<and>
           (body r = JUndefined \<or> seralize P (issue_value i) accept = Inr (Some (body r))) \<and>
           HandlerInvoked \<notin> set events"
proof -
  from Issues_new_invalid [of "issues traffic" c e] assms obtain i where
    i: "Issues_new (issues traffic) c [ErrorArg e] = Inr i" "code i = c" "status i = 400"
    by blast
  from issueResponseFactory_returns [of P traffic accept i None] obtain r events where
    r: "issueResponseFactory P traffic accept i None = (Inr r, events)"
       "response_status r = Some (JNumber (int (status i)))"
       "body r = JUndefined \<or> seralize P (issue_value i) accept = Inr (Some (body r))"
       "HandlerInvoked \<notin> set events"
    by blast
  have "issue_return P traffic accept c [ErrorArg e] = issueResponseFactory P traffic accept i None"
    by (simp add: issue_return_def i)
  with i r show ?thesis by auto
qed

lemma violates_ends:
  assumes "violates f l declared" and "rejections_carry_issues f l declared"
  shows "\<exists>es e. declared = Some es \<and> validate_entries f l es Map.empty = Inl e \<and> zod_issues e \<noteq> []"
proof -
  from assms(1) obtain es where es: "declared = Some es"
    by (cases declared) (auto simp: violates_def)
  with assms(1) obtain e where e: "validate_entries f l es Map.empty = Inl e"
    using violates_iff [of f l es Map.empty] by auto
  from assms(2) es e have "zod_issues e \<noteq> []"
    using rejection_has_issue [of f l es Map.empty e] by simp
  with es e show ?thesis by blast
qed

lemma passes_continues:
  assumes "\<not> violates f l declared"
  shows "declared = None \<or> (\<exists>es out. declared = Some es \<and> validate_entries f l es Map.empty = Inr out)"
proof (cases declared)
  case None
  then show ?thesis by simp
next
  case (Some es)
  with assms not_violates_Inr [of f l es Map.empty] show ?thesis by auto
qed

lemma params_stage_rejects:
  assumes "violates (field_shape P) (rawParams_value rawParams) (request_params rd)"
    and "rejections_carry_issues (field_shape P) (rawParams_value rawParams) (request_params rd)"
  shows "\<exists>e. zod_issues e \<noteq> [] \<and> params_stage P traffic accept rd rawParams =
           Inl (issue_return P traffic accept ''/traffic/request/invalid-params'' [ErrorArg e])"
  using violates_ends [OF assms] by (auto simp: params_stage_def)

lemma params_stage_passes:
  assumes "\<not> violates (field_shape P) (rawParams_value rawParams) (request_params rd)"
  shows "\<exists>out. params_stage P traffic accept rd rawParams = Inr out"
  using passes_continues [OF assms] by (auto simp: params_stage_def)

lemma query_stage_rejects:
  assumes "violates (field_shape P) (searchParams_value request) (request_query rd)"
    and "rejections_carry_issues (field_shape P) (searchParams_value request) (request_query rd)"
  shows "\<exists>e. zod_issues e \<noteq> [] \<and> query_stage P traffic accept rd request =
           Inl (issue_return P traffic accept ''/traffic/request/invalid-query'' [ErrorArg e])"
  using violates_ends [OF assms] by (auto simp: query_stage_def)

lemma query_stage_passes:
  assumes "\<not> violates (field_shape P) (searchParams_value request) (request_query rd)"
  shows "\<exists>out. query_stage P traffic accept rd request = Inr out"
  using passes_continues [OF assms] by (auto simp: query_stage_def)

lemma headers_stage_rejects:
  assumes "violates (header_shape P) (searchParams_value request) (request_headers rd)"
    and "rejections_carry_issues (header_shape P) (searchParams_value request) (request_headers rd)"
  shows "\<exists>e. zod_issues e \<noteq> [] \<and> headers_stage P traffic accept rd request =
           Inl (issue_return P traffic accept ''/traffic/request/invalid-headers'' [ErrorArg e])"
  using violates_ends [OF assms] by (auto simp: headers_stage_def)

lemma headers_stage_passes:
  assumes "\<not> violates (header_shape P) (searchParams_value request) (request_headers rd)"
  shows "\<exists>out. headers_stage P traffic accept rd request = Inr out"
  using passes_continues [OF assms] by (auto simp: headers_stage_def)

lemma route_ends_at_params:
  "params_stage P (raw_traffic raw) (accept_of this (raw_request raw)) (def_request defn)
     (raw_params raw) = Inl ended \<Longrightarrow>
   route P this defn handler raw = ended"
  by (simp add: route_def Let_def)

lemma route_ends_at_query:
  "params_stage P (raw_traffic raw) (accept_of this (raw_request raw)) (def_request defn)
     (raw_params raw) = Inr params \<Longrightarrow>
   query_stage P (raw_traffic raw) (accept_of this (raw_request raw)) (def_request defn)
     (raw_request raw) = Inl ended \<Longrightarrow>
   route P this defn handler raw = ended"
  by (simp add: route_def Let_def)

lemma route_ends_at_headers:
  "params_stage P (raw_traffic raw) (accept_of this (raw_request raw)) (def_request defn)
     (raw_params raw) = Inr params \<Longrightarrow>
   query_stage P (raw_traffic raw) (accept_of this (raw_request raw)) (def_request defn)
     (raw_request raw) = Inr query \<Longrightarrow>
   headers_stage P (raw_traffic raw) (accept_of this (raw_request raw)) (def_request defn)
     (raw_request raw) = Inl ended \<Longrightarrow>
   route P this defn handler raw = ended"
  by (simp add: route_def Let_def)

lemma validate_entries_keeps:
  "validate_entries f l es out = Inr out' \<Longrightarrow> k \<notin> fst ` set es \<Longrightarrow> out' k = out k"
  by (induction es arbitrary: out) (auto split: parse_result.splits)

lemma validate_entries_stores:
  "validate_entries f l es out = Inr out' \<Longrightarrow> distinct (map fst es) \<Longrightarrow> (k, s) \<in> set es \<Longrightarrow>
   f s (l k) = Success d \<Longrightarrow> out' k = Some d"
proof (induction es arbitrary: out)
  case Nil
  then show ?case by simp
next
  case (Cons entry rest)
  obtain k' s' where entry: "entry = (k', s')" by (cases entry)
  from Cons.prems(1) entry obtain d' where d': "f s' (l k') = Success d'"
    and rest: "validate_entries f l rest (out(k' \<mapsto> d')) = Inr out'"
    by (auto split: parse_result.splits)
  show ?case
  proof (cases "(k, s) = (k', s')")
    case True
    with Cons.prems(2) entry have "k \<notin> fst ` set rest" by auto
    from validate_entries_keeps [OF rest this] True d' Cons.prems(4) show ?thesis by simp
  next
    case False
    with Cons.prems(3) entry have "(k, s) \<in> set rest" by auto
    moreover from Cons.prems(2) have "distinct (map fst rest)" by simp
    ultimately show ?thesis using Cons.IH [OF rest] Cons.prems(4) by blast
  qed
qed

lemma find_unique:
  "d \<in> set xs \<Longrightarrow> Q d \<Longrightarrow> \<forall>d' \<in> set xs. Q d' \<longrightarrow> d' = d \<Longrightarrow> find Q xs = Some d"
proof (induction xs)
  case Nil
  then show ?case by simp
next
  case (Cons x xs)
  show ?case
  proof (cases "Q x")
    case True
    with Cons.prems(3) have "x = d" by simp
    with True show ?thesis by simp
  next
    case False
    with Cons.prems(1,2) have "d \<in> set xs" by auto
    moreover from Cons.prems(3) have "\<forall>d' \<in> set xs. Q d' \<longrightarrow> d' = d" by simp
    ultimately have "find Q xs = Some d" using Cons.IH Cons.prems(2) by blast
    with False show ?thesis by simp
  qed
qed

lemma issue_return_quiet: "HandlerInvoked \<notin> set (snd (issue_return P traffic accept c args))"
proof (cases "Issues_new (issues traffic) c args")
  case (Inl e)
  then show ?thesis by (simp add: issue_return_def)
next
  case (Inr i)
  with issueResponseFactory_returns [of P traffic accept i None] show ?thesis
    by (auto simp: issue_return_def)
qed

lemma params_stage_quiet:
  "params_stage P traffic accept rd rawParams = Inl ended \<Longrightarrow> HandlerInvoked \<notin> set (snd ended)"
  using issue_return_quiet
  by (auto simp: params_stage_def split: option.splits sum.splits)

lemma query_stage_quiet:
  "query_stage P traffic accept rd request = Inl ended \<Longrightarrow> HandlerInvoked \<notin> set (snd ended)"
  using issue_return_quiet
  by (auto simp: query_stage_def split: option.splits sum.splits)

lemma headers_stage_quiet:
  "headers_stage P traffic accept rd request = Inl ended \<Longrightarrow> HandlerInvoked \<notin> set (snd ended)"
  using issue_return_quiet
  by (auto simp: headers_stage_def split: option.splits sum.splits)

lemma content_type_stage_quiet:
  "content_type_stage P traffic rd request = Inl ended \<Longrightarrow> HandlerInvoked \<notin> set (snd ended)"
  by (auto simp: content_type_stage_def Let_def split: sum.splits if_splits)

lemma body_stage_quiet:
  "body_stage P traffic accept rd request type = Inl ended \<Longrightarrow> HandlerInvoked \<notin> set (snd ended)"
  using issue_return_quiet
  by (auto simp: body_stage_def split: message_body.splits sum.splits option.splits parse_result.splits)

text \<open>The handler's event is in the result only when the handler produced the result.\<close>

lemma route_invoked:
  assumes "route P this defn handler raw = (result, events)" and "HandlerInvoked \<in> set events"
  shows "\<exists>ctx handled. ctx_response ctx = responseFactory P (raw_traffic raw) defn
                                              (accept_of this (raw_request raw)) \<and>
           handler ctx = (result, handled) \<and> events = HandlerInvoked # handled"
proof (cases "params_stage P (raw_traffic raw) (accept_of this (raw_request raw)) (def_request defn)
     (raw_params raw)")
  case (Inl ended)
  with assms params_stage_quiet [OF Inl] show ?thesis by (simp add: route_def Let_def)
next
  case params: (Inr params)
  show ?thesis
  proof (cases "query_stage P (raw_traffic raw) (accept_of this (raw_request raw)) (def_request defn)
     (raw_request raw)")
    case (Inl ended)
    with assms params query_stage_quiet [OF Inl] show ?thesis by (simp add: route_def Let_def)
  next
    case query: (Inr query)
    show ?thesis
    proof (cases "headers_stage P (raw_traffic raw) (accept_of this (raw_request raw))
        (def_request defn) (raw_request raw)")
      case (Inl ended)
      with assms params query headers_stage_quiet [OF Inl] show ?thesis
        by (simp add: route_def Let_def)
    next
      case hs: (Inr hs)
      show ?thesis
      proof (cases "content_type_stage P (raw_traffic raw) (def_request defn) (raw_request raw)")
        case (Inl ended)
        with assms params query hs content_type_stage_quiet [OF Inl] show ?thesis
          by (simp add: route_def Let_def)
      next
        case type: (Inr type)
        show ?thesis
        proof (cases "body_stage P (raw_traffic raw) (accept_of this (raw_request raw))
            (def_request defn) (raw_request raw) type")
          case (Inl ended)
          with assms params query hs type body_stage_quiet [OF Inl] show ?thesis
            by (simp add: route_def Let_def)
        next
          case (Inr content)
          let ?ctx = "\<lparr> ctx_request = raw_request raw, ctx_params = params, ctx_query = query,
              ctx_headers = hs, ctx_content = content,
              ctx_response = responseFactory P (raw_traffic raw) defn
                               (accept_of this (raw_request raw)),
              ctx_issue = issueResponseFactory P (raw_traffic raw)
                            (accept_of this (raw_request raw)),
              ctx_traffic = raw_traffic raw \<rparr>"
          obtain handled_result handled where handled: "handler ?ctx = (handled_result, handled)"
            by (cases "handler ?ctx")
          with assms(1) params query hs type Inr
          have "result = handled_result" "events = HandlerInvoked # handled"
            by (simp_all add: route_def Let_def)
          with handled have "ctx_response ?ctx = responseFactory P (raw_traffic raw) defn
                               (accept_of this (raw_request raw)) \<and>
              handler ?ctx = (result, handled) \<and> events = HandlerInvoked # handled"
            by simp
          then show ?thesis by blast
        qed
      qed
    qed
  qed
qed

text \<open>
  Where the descriptor is built, the two codecs are inverse to each other: a string under
  the key plain, and under the key json every value that \<^verbatim>\<open>request.json()\<close> reads back
  from its \<^verbatim>\<open>JSON.stringify\<close> text.
\<close>

lemma codec_roundtrip_plain:
  assumes "t \<noteq> []" and "Mime P t = Inr m" and "codec_key m = ''plain''"
    and "headers_get request ''Content-Type'' = Some t" and "body_text request = s"
  shows "seralize P (JString s) t = Inr (Some (JString s)) \<and>
         parse P request = Inr (Some (JString s))"
  using assms by (simp add: seralize_def parse_def js_String_def)

lemma codec_roundtrip_json:
  assumes "t \<noteq> []" and "Mime P t = Inr m" and "codec_key m = ''json''"
    and "JSON_stringify P v = Some b" and "request_json P b = Inr v"
    and "headers_get request ''Content-Type'' = Some t" and "body_text request = b"
  shows "seralize P v t = Inr (Some (JString b)) \<and> parse P request = Inr (Some v)"
  using assms by (simp add: seralize_def parse_def string_or_undefined_def)

section \<open>The issue registry\<close>

text \<open>
  C3. For a code registered in the registry and arguments its factory accepts (the factory
  returns instead of throwing), \<^verbatim>\<open>Issues.new\<close> returns an issue whose code is
  the code asked for and whose \<open>deflected\<close> is present: the factory's value when it gave
  one, \<open>False\<close> when it gave none.
\<close>

theorem Issues_new_code_deflected:
  assumes "registry c = Some factory" and "factory args = Inr made"
  shows "\<exists>i. Issues_new registry c args = Inr i \<and> code i = c \<and>
           (\<exists>b. deflected i = Some b) \<and>
           (\<forall>b. deflected made = Some b \<longrightarrow> deflected i = Some b) \<and>
           (deflected made = None \<longrightarrow> deflected i = Some False)"
  using assms by (simp add: Issues_new_def)

theorem Issues_new_code_deflected_witness:
  "trafficIssues ''/traffic/unknown'' = Some unknown_factory \<and>
   map_sum id deflected (unknown_factory []) = Inr (Some False) \<and>
   map_sum id code (Issues_new trafficIssues ''/traffic/unknown'' []) = Inr ''/traffic/unknown'' \<and>
   map_sum id deflected (Issues_new trafficIssues ''/traffic/unknown'' []) = Inr (Some False) \<and>
   map_sum id deflected
     (Issues_new [''/app/conflict'' \<mapsto> (\<lambda>args. Inr \<lparr> status = 409, deflected = None,
                                                     headers = None, extra = [] \<rparr>)]
        ''/app/conflict'' []) = Inr (Some False)"
proof -
  have registered: "trafficIssues ''/traffic/unknown'' = Some unknown_factory"
    by (simp add: trafficIssues_def)
  have made: "unknown_factory [] = Inr \<lparr> status = 500, deflected = Some False, headers = None,
      extra = [(''description'', JString ''Unknown server error.'')] \<rparr>"
    by (simp add: unknown_factory_def)
  note builtin = Issues_new_code_deflected [of trafficIssues "''/traffic/unknown''" unknown_factory "[]"
      "\<lparr> status = 500, deflected = Some False, headers = None,
         extra = [(''description'', JString ''Unknown server error.'')] \<rparr>"]
  note custom = Issues_new_code_deflected
      [of "[''/app/conflict'' \<mapsto> (\<lambda>args. Inr \<lparr> status = 409, deflected = None,
                                                  headers = None, extra = [] \<rparr>)]"
          "''/app/conflict''"
          "\<lambda>args. Inr \<lparr> status = 409, deflected = None, headers = None, extra = [] \<rparr>"
          "[]"
          "\<lparr> status = 409, deflected = None, headers = None, extra = [] \<rparr>"]
  from builtin custom
  show ?thesis using registered made by auto
qed

text \<open>
  C4. The built-in factories follow the taxonomy. Instantiated with a schema error that
  carries at least one issue, each of invalid-params, invalid-query, invalid-headers and
  invalid-content has status 400 and \<open>deflected = True\<close>; unsupported-content-type has
  the same for every argument list; unsupported-content has status 400 and
  \<open>deflected = False\<close>; unknown has status 500 and \<open>deflected = False\<close>.
\<close>

theorem builtin_taxonomy:
  "(c \<in> {''/traffic/request/invalid-params'', ''/traffic/request/invalid-query'',
          ''/traffic/request/invalid-headers'', ''/traffic/request/invalid-content''} \<and>
    zod_issues error \<noteq> [] \<longrightarrow>
      (\<exists>i. Issues_new trafficIssues c (ErrorArg error # args) = Inr i \<and> code i = c \<and>
           status i = 400 \<and> deflected i = Some True)) \<and>
   (\<exists>i. Issues_new trafficIssues ''/traffic/request/unsupported-content-type'' args = Inr i \<and>
        status i = 400 \<and> deflected i = Some True) \<and>
   (\<exists>i. Issues_new trafficIssues ''/traffic/request/unsupported-content'' args = Inr i \<and>
        status i = 400 \<and> deflected i = Some False) \<and>
   (\<exists>i. Issues_new trafficIssues ''/traffic/unknown'' args = Inr i \<and>
        status i = 500 \<and> deflected i = Some False)"
proof -
  have invalid: "\<exists>i. Issues_new trafficIssues c (ErrorArg error # args) = Inr i \<and> code i = c \<and>
           status i = 400 \<and> deflected i = Some True"
    if "trafficIssues c = Some invalid_factory" and "zod_issues error \<noteq> []" for c
    using that by (cases "zod_issues error") (simp_all add: Issues_new_def invalid_factory_def)
  have "trafficIssues c = Some invalid_factory"
    if "c \<in> {''/traffic/request/invalid-params'', ''/traffic/request/invalid-query'',
          ''/traffic/request/invalid-headers'', ''/traffic/request/invalid-content''}" for c
    using that by (auto simp: trafficIssues_def)
  with invalid have first: "c \<in> {''/traffic/request/invalid-params'', ''/traffic/request/invalid-query'',
          ''/traffic/request/invalid-headers'', ''/traffic/request/invalid-content''} \<and>
    zod_issues error \<noteq> [] \<longrightarrow>
      (\<exists>i. Issues_new trafficIssues c (ErrorArg error # args) = Inr i \<and> code i = c \<and>
           status i = 400 \<and> deflected i = Some True)"
    by blast
  have second: "\<exists>i. Issues_new trafficIssues ''/traffic/request/unsupported-content-type'' args = Inr i \<and>
        status i = 400 \<and> deflected i = Some True"
    by (simp add: Issues_new_def trafficIssues_def unsupported_content_type_factory_def)
  have third: "\<exists>i. Issues_new trafficIssues ''/traffic/request/unsupported-content'' args = Inr i \<and>
        status i = 400 \<and> deflected i = Some False"
    by (simp add: Issues_new_def trafficIssues_def unsupported_content_factory_def)
  have fourth: "\<exists>i. Issues_new trafficIssues ''/traffic/unknown'' args = Inr i \<and>
        status i = 500 \<and> deflected i = Some False"
    by (simp add: Issues_new_def trafficIssues_def unknown_factory_def)
  from first second third fourth show ?thesis by blast
qed

theorem builtin_taxonomy_witness:
  "zod_issues (ZodError [ZodIssue ''Expected number, received nan'']) \<noteq> [] \<and>
   map (\<lambda>c. map_sum id (\<lambda>i. (status i, deflected i))
              (Issues_new trafficIssues c
                 [ErrorArg (ZodError [ZodIssue ''Expected number, received nan''])]))
     [''/traffic/request/invalid-params'', ''/traffic/request/invalid-query'',
      ''/traffic/request/invalid-headers'', ''/traffic/request/invalid-content'',
      ''/traffic/request/unsupported-content-type'', ''/traffic/request/unsupported-content'',
      ''/traffic/unknown'']
   = [Inr (400, Some True), Inr (400, Some True), Inr (400, Some True), Inr (400, Some True),
      Inr (400, Some True), Inr (400, Some False), Inr (500, Some False)]"
  using builtin_taxonomy [of "''/traffic/request/invalid-query''"
          "ZodError [ZodIssue ''Expected number, received nan'']" "[]"]
  by (simp add: Issues_new_def trafficIssues_def invalid_factory_def
        unsupported_content_type_factory_def unsupported_content_factory_def unknown_factory_def)

section \<open>The content codec and issue responses\<close>

text \<open>
  C9. Let the Accept value of a request (the header, else the default of the instance) be
  a non-empty string whose media type, as content-type parses it, has no \<open>+\<close>. Then for
  every issue the serialization throws the error of the \<^verbatim>\<open>Mime\<close> constructor, the
  issue response logs it as the cause and has no body, and it keeps the issue's status.
  With no Accept header and the default \<^verbatim>\<open>application/json\<close> this is the case of
  every issue.
\<close>

theorem issue_body_dropped_without_suffix:
  fixes this request
  defines "accept \<equiv> accept_of this request"
  assumes nonempty: "accept \<noteq> []"
    and parsed: "content_type_parse P accept = Inr parsed"
    and no_plus: "CHR ''+'' \<notin> set (ptype parsed)"
  shows "seralize P (issue_value i) accept = Inl (Error ''Invalid mime type.'') \<and>
         issueResponseFactory P traffic accept i hdrs =
           (Inr \<lparr> body = JUndefined,
                   init = [(''status'', JNumber (int (status i))),
                           (''headers'', (case hdrs of None \<Rightarrow> JUndefined | Some h \<Rightarrow> JObject h))] \<rparr>,
            [ConsoleError ''Failed to serialize issue response.''
               (Some (ExnCause (Error ''Invalid mime type.'')))]) \<and>
         (headers_get request ''Accept'' = None \<and> defaultResponseType this = ''application/json''
            \<longrightarrow> accept = ''application/json'')"
proof -
  from Mime_without_plus [OF parsed no_plus] nonempty
  have thrown: "seralize P (issue_value i) accept = Inl (Error ''Invalid mime type.'')"
    by (simp add: seralize_def)
  then have "issueResponseFactory P traffic accept i hdrs =
           (Inr \<lparr> body = JUndefined,
                   init = [(''status'', JNumber (int (status i))),
                           (''headers'', (case hdrs of None \<Rightarrow> JUndefined | Some h \<Rightarrow> JObject h))] \<rparr>,
            [ConsoleError ''Failed to serialize issue response.''
               (Some (ExnCause (Error ''Invalid mime type.'')))])"
    by (simp add: issueResponseFactory_def)
  with thrown show ?thesis by (simp add: accept_def accept_of_def)
qed

theorem issue_body_dropped_without_suffix_witness:
  "accept_of (Traffic None) bare_request = ''application/json'' \<and>
   content_type_parse sample_platform ''application/json''
     = Inr \<lparr> ptype = ''application/json'', parameters = [] \<rparr> \<and>
   CHR ''+'' \<notin> set ''application/json'' \<and>
   issueResponseFactory sample_platform (Traffic None) (accept_of (Traffic None) bare_request)
     \<lparr> status = 500, deflected = Some False, headers = None,
       extra = [(''description'', JString ''Unknown server error.'')],
       code = ''/traffic/unknown'' \<rparr> None
   = (Inr \<lparr> body = JUndefined, init = [(''status'', JNumber 500), (''headers'', JUndefined)] \<rparr>,
      [ConsoleError ''Failed to serialize issue response.''
         (Some (ExnCause (Error ''Invalid mime type.'')))])"
  using issue_body_dropped_without_suffix [where P = sample_platform and this = "Traffic None"
      and request = bare_request and parsed = "\<lparr> ptype = ''application/json'', parameters = [] \<rparr>"
      and traffic = "Traffic None" and hdrs = None
      and i = "\<lparr> status = 500, deflected = Some False, headers = None,
       extra = [(''description'', JString ''Unknown server error.'')],
       code = ''/traffic/unknown'' \<rparr>"]
  by (simp add: eval_defs sample_defs)

text \<open>
  C8. Decoding what was encoded gives the value back for the kinds json and plain. The
  code does not get that far for a media type without a structured suffix, such as
  \<^verbatim>\<open>text/plain\<close> or \<^verbatim>\<open>application/json\<close>: both \<^verbatim>\<open>seralize\<close> and \<^verbatim>\<open>parse\<close> throw
  the error of the \<^verbatim>\<open>Mime\<close> constructor before any codec is chosen.
\<close>

theorem codec_throws_without_suffix:
  assumes nonempty: "t \<noteq> []"
    and parsed: "content_type_parse P t = Inr parsed"
    and no_plus: "CHR ''+'' \<notin> set (ptype parsed)"
    and header: "headers_get request ''Content-Type'' = Some t"
  shows "seralize P v t = Inl (Error ''Invalid mime type.'') \<and>
         parse P request = Inl (Error ''Invalid mime type.'')"
  using Mime_without_plus [OF parsed no_plus] nonempty header
  by (simp add: seralize_def parse_def)

theorem codec_throws_without_suffix_witness:
  "seralize sample_platform (JString ''hello'') ''text/plain'' = Inl (Error ''Invalid mime type.'') \<and>
   parse sample_platform
     (bare_request \<lparr> headers_get := [''Content-Type'' \<mapsto> ''text/plain''], body_text := ''hello'' \<rparr>)
     = Inl (Error ''Invalid mime type.'') \<and>
   seralize sample_platform (JObject [(''name'', JString ''a'')]) ''application/json''
     = Inl (Error ''Invalid mime type.'') \<and>
   seralize sample_platform (JString ''hello'') ''text/x+plain'' = Inr (Some (JString ''hello''))"
  using codec_throws_without_suffix [where P = sample_platform and t = "''text/plain''"
      and parsed = "\<lparr> ptype = ''text/plain'', parameters = [] \<rparr>" and v = "JString ''hello''"
      and request = "bare_request \<lparr> headers_get := [''Content-Type'' \<mapsto> ''text/plain''], body_text := ''hello'' \<rparr>"]
    codec_throws_without_suffix [where P = sample_platform and t = "''application/json''"
      and parsed = "\<lparr> ptype = ''application/json'', parameters = [] \<rparr>"
      and v = "JObject [(''name'', JString ''a'')]"
      and request = "bare_request \<lparr> headers_get := [''Content-Type'' \<mapsto> ''application/json''] \<rparr>"]
  by (simp add: eval_defs sample_defs)

section \<open>The validation pipeline\<close>

text \<open>
  C1. Take a route and a request in which some declared field of the params, query or
  headers schema map is rejected by its schema, on an instance whose registry holds the
  built-in factories for the three codes, with rejections that carry at least one issue
  (as the schema engine reports them). Then the compiled route returns the response that
  \<^verbatim>\<open>issueResponseFactory\<close> builds for the issue of exactly one code: invalid-params if a
  param is rejected, else invalid-query if a query field is, else invalid-headers. The
  issue and the response have status 400, the body is absent or the serialized issue,
  nothing of a later stage contributes to the result, and the handler is not invoked.
\<close>

theorem schema_violation_short_circuits:
  fixes P this defn handler raw
  defines "traffic \<equiv> raw_traffic raw"
    and "accept \<equiv> accept_of this (raw_request raw)"
    and "bad_params \<equiv> violates (field_shape P) (rawParams_value (raw_params raw))
                         (request_params (def_request defn))"
    and "bad_query \<equiv> violates (field_shape P) (searchParams_value (raw_request raw))
                        (request_query (def_request defn))"
    and "bad_headers \<equiv> violates (header_shape P) (searchParams_value (raw_request raw))
                          (request_headers (def_request defn))"
  assumes builtin:
      "issues traffic ''/traffic/request/invalid-params''
         = trafficIssues ''/traffic/request/invalid-params''"
      "issues traffic ''/traffic/request/invalid-query''
         = trafficIssues ''/traffic/request/invalid-query''"
      "issues traffic ''/traffic/request/invalid-headers''
         = trafficIssues ''/traffic/request/invalid-headers''"
    and reported:
      "rejections_carry_issues (field_shape P) (rawParams_value (raw_params raw))
         (request_params (def_request defn))"
      "rejections_carry_issues (field_shape P) (searchParams_value (raw_request raw))
         (request_query (def_request defn))"
      "rejections_carry_issues (header_shape P) (searchParams_value (raw_request raw))
         (request_headers (def_request defn))"
    and violated: "bad_params \<or> bad_query \<or> bad_headers"
  shows "\<exists>c error i r events.
           c = (if bad_params then ''/traffic/request/invalid-params''
                else if bad_query then ''/traffic/request/invalid-query''
                else ''/traffic/request/invalid-headers'') \<and>
           Issues_new (issues traffic) c [ErrorArg error] = Inr i \<and>
           code i = c \<and> status i = 400 \<and>
           route P this defn handler raw = issueResponseFactory P traffic accept i None \<and>
           route P this defn handler raw = (Inr r, events) \<and>
           response_status r = Some (JNumber 400) \<and>
           (body r = JUndefined \<or> seralize P (issue_value i) accept = Inr (Some (body r))) \<and>
           HandlerInvoked \<notin> set events"
proof -
  have factories:
    "issues traffic ''/traffic/request/invalid-params'' = Some invalid_factory"
    "issues traffic ''/traffic/request/invalid-query'' = Some invalid_factory"
    "issues traffic ''/traffic/request/invalid-headers'' = Some invalid_factory"
    using builtin by (simp_all add: trafficIssues_def)
  show ?thesis
  proof (cases bad_params)
    case True
    from params_stage_rejects [OF True [unfolded bad_params_def] reported(1), of traffic accept]
    obtain e where e: "zod_issues e \<noteq> []"
      "params_stage P traffic accept (def_request defn) (raw_params raw) =
         Inl (issue_return P traffic accept ''/traffic/request/invalid-params'' [ErrorArg e])"
      by blast
    from route_ends_at_params [OF e(2) [unfolded traffic_def accept_def]]
    have "route P this defn handler raw =
            issue_return P traffic accept ''/traffic/request/invalid-params'' [ErrorArg e]"
      by (simp add: traffic_def accept_def)
    with issue_return_invalid [OF factories(1) e(1), of P accept] True
    show ?thesis by auto
  next
    case no_params: False
    from params_stage_passes [OF no_params [unfolded bad_params_def], of traffic accept]
    obtain params where params:
      "params_stage P traffic accept (def_request defn) (raw_params raw) = Inr params"
      by blast
    show ?thesis
    proof (cases bad_query)
      case True
      from query_stage_rejects [OF True [unfolded bad_query_def] reported(2), of traffic accept]
      obtain e where e: "zod_issues e \<noteq> []"
        "query_stage P traffic accept (def_request defn) (raw_request raw) =
           Inl (issue_return P traffic accept ''/traffic/request/invalid-query'' [ErrorArg e])"
        by blast
      from route_ends_at_query [OF params [unfolded traffic_def accept_def]
             e(2) [unfolded traffic_def accept_def]]
      have "route P this defn handler raw =
              issue_return P traffic accept ''/traffic/request/invalid-query'' [ErrorArg e]"
        by (simp add: traffic_def accept_def)
      with issue_return_invalid [OF factories(2) e(1), of P accept] True no_params
      show ?thesis by auto
    next
      case no_query: False
      from query_stage_passes [OF no_query [unfolded bad_query_def], of traffic accept]
      obtain query where query:
        "query_stage P traffic accept (def_request defn) (raw_request raw) = Inr query"
        by blast
      from violated no_params no_query have bad: bad_headers by simp
      from headers_stage_rejects [OF bad [unfolded bad_headers_def] reported(3), of traffic accept]
      obtain e where e: "zod_issues e \<noteq> []"
        "headers_stage P traffic accept (def_request defn) (raw_request raw) =
           Inl (issue_return P traffic accept ''/traffic/request/invalid-headers'' [ErrorArg e])"
        by blast
      from route_ends_at_headers [OF params [unfolded traffic_def accept_def]
             query [unfolded traffic_def accept_def] e(2) [unfolded traffic_def accept_def]]
      have "route P this defn handler raw =
              issue_return P traffic accept ''/traffic/request/invalid-headers'' [ErrorArg e]"
        by (simp add: traffic_def accept_def)
      with issue_return_invalid [OF factories(3) e(1), of P accept] no_params no_query
      show ?thesis by auto
    qed
  qed
qed

theorem schema_violation_short_circuits_witness:
  "violates (field_shape sample_platform) (rawParams_value [''id'' \<mapsto> ''abc''])
     (Some [(''id'', Schema sample_numeric)]) \<and>
   route sample_platform (Traffic None)
     \<lparr> def_request = (accepting ''json'') \<lparr> request_params := Some [(''id'', Schema sample_numeric)] \<rparr>,
       def_response = Many [] \<rparr>
     idle_handler
     \<lparr> raw_params = [''id'' \<mapsto> ''abc''],
       raw_request = bare_request \<lparr> headers_get := [''Content-Type'' \<mapsto> ''text/plain''] \<rparr>,
       raw_traffic = Traffic None \<rparr>
   = (Inr \<lparr> body = JUndefined,
             init = [(''status'', JNumber 400), (''headers'', JUndefined)] \<rparr>,
      [ConsoleError ''Failed to serialize issue response.''
         (Some (ExnCause (Error ''Invalid mime type.'')))])"
  using schema_violation_short_circuits [where P = sample_platform and this = "Traffic None"
     and handler = idle_handler
     and raw = "\<lparr> raw_params = [''id'' \<mapsto> ''abc''],
       raw_request = bare_request \<lparr> headers_get := [''Content-Type'' \<mapsto> ''text/plain''] \<rparr>,
       raw_traffic = Traffic None \<rparr>"
     and defn = "\<lparr> def_request = (accepting ''json'') \<lparr> request_params := Some [(''id'', Schema sample_numeric)] \<rparr>,
       def_response = Many [] \<rparr>"]
  by (simp add: eval_defs sample_defs sample_numeric_def violates_def rejections_carry_issues_def)

text \<open>
  C7. In the headers stage, the value validated for every declared header name is the one
  \<^verbatim>\<open>searchParams.get\<close> returns for that name. The stage does not depend on the HTTP
  header map of the request; when it passes, the shape of every declared header accepted
  the query-string value of its name (and, the names being distinct as in an object, that
  is the value stored); when it ends the request, the shape of a declared header rejected
  the query-string value of its name, and the result is the invalid-headers issue for
  that rejection.
\<close>

theorem headers_stage_reads_query_string:
  assumes declared: "request_headers rd = Some entries"
  shows "headers_stage P traffic accept rd (request \<lparr> headers_get := other \<rparr>)
           = headers_stage P traffic accept rd request \<and>
         (case headers_stage P traffic accept rd request of
            Inr validated \<Rightarrow>
              \<forall>(key, schema) \<in> set entries.
                \<exists>data. header_shape P schema (searchParams_value request key) = Success data \<and>
                       (distinct (map fst entries) \<longrightarrow> validated key = Some data)
          | Inl ended \<Rightarrow>
              \<exists>(key, schema) \<in> set entries.
                \<exists>error. header_shape P schema (searchParams_value request key) = Failure error \<and>
                        ended = issue_return P traffic accept ''/traffic/request/invalid-headers''
                                  [ErrorArg error])"
proof
  have "searchParams_value (request \<lparr> headers_get := other \<rparr>) = searchParams_value request"
    by (rule ext) (simp add: searchParams_value_def)
  with declared show "headers_stage P traffic accept rd (request \<lparr> headers_get := other \<rparr>)
           = headers_stage P traffic accept rd request"
    by (simp add: headers_stage_def)
next
  let ?run = "validate_entries (header_shape P) (searchParams_value request) entries Map.empty"
  show "case headers_stage P traffic accept rd request of
            Inr validated \<Rightarrow>
              \<forall>(key, schema) \<in> set entries.
                \<exists>data. header_shape P schema (searchParams_value request key) = Success data \<and>
                       (distinct (map fst entries) \<longrightarrow> validated key = Some data)
          | Inl ended \<Rightarrow>
              \<exists>(key, schema) \<in> set entries.
                \<exists>error. header_shape P schema (searchParams_value request key) = Failure error \<and>
                        ended = issue_return P traffic accept ''/traffic/request/invalid-headers''
                                  [ErrorArg error]"
  proof (cases ?run)
    case (Inl error)
    from validate_entries_Inl [OF Inl] obtain key schema where
      "(key, schema) \<in> set entries"
      "header_shape P schema (searchParams_value request key) = Failure error"
      by auto
    then have "\<exists>(key, schema) \<in> set entries.
                \<exists>error'. header_shape P schema (searchParams_value request key) = Failure error' \<and>
                  issue_return P traffic accept ''/traffic/request/invalid-headers'' [ErrorArg error]
                    = issue_return P traffic accept ''/traffic/request/invalid-headers''
                                  [ErrorArg error']"
      by (intro bexI [of _ "(key, schema)"]) auto
    with Inl declared show ?thesis by (simp add: headers_stage_def)
  next
    case (Inr validated)
    have "\<exists>data. header_shape P schema (searchParams_value request key) = Success data \<and>
                 (distinct (map fst entries) \<longrightarrow> validated key = Some data)"
      if "(key, schema) \<in> set entries" for key schema
    proof -
      from validate_entries_Inr [OF Inr that] obtain data where
        data: "header_shape P schema (searchParams_value request key) = Success data" ..
      with validate_entries_stores [OF Inr _ that] show ?thesis by auto
    qed
    with Inr declared show ?thesis by (auto simp: headers_stage_def)
  qed
qed

theorem headers_stage_reads_query_string_witness:
  "headers_stage sample_platform (Traffic None) ''application/json''
     ((accepting ''json'') \<lparr> request_headers := Some [(''x-api-key'', Literal ''secret'')] \<rparr>)
     (bare_request \<lparr> headers_get := [''x-api-key'' \<mapsto> ''secret''] \<rparr>)
   = Inl (Inr \<lparr> body = JUndefined,
                 init = [(''status'', JNumber 400), (''headers'', JUndefined)] \<rparr>,
          [ConsoleError ''Failed to serialize issue response.''
             (Some (ExnCause (Error ''Invalid mime type.'')))]) \<and>
   headers_stage sample_platform (Traffic None) ''application/json''
     ((accepting ''json'') \<lparr> request_headers := Some [(''x-api-key'', Literal ''secret'')] \<rparr>)
     (bare_request \<lparr> searchParams_get := [''x-api-key'' \<mapsto> ''secret''] \<rparr>)
   = Inr [''x-api-key'' \<mapsto> JString ''secret'']"
  using headers_stage_reads_query_string [where P = sample_platform and traffic = "Traffic None"
      and accept = "''application/json''"
      and rd = "(accepting ''json'') \<lparr> request_headers := Some [(''x-api-key'', Literal ''secret'')] \<rparr>"
      and entries = "[(''x-api-key'', Literal ''secret'')]"
      and request = "bare_request \<lparr> searchParams_get := [''x-api-key'' \<mapsto> ''secret''] \<rparr>"
      and other = "[''x-api-key'' \<mapsto> ''secret'']"]
  by (simp add: eval_defs sample_defs)

text \<open>
  C10. For a request without a Content-Type header, on an instance whose registry holds
  the built-in unsupported-content-type factory, the content-type stage does not throw:
  no descriptor is built, the effective type is \<^verbatim>\<open>application/octet-stream\<close>, which
  has no \<open>+\<close> and so is itself the key looked up, and the stage passes exactly when the
  declared mime list contains that string; otherwise it ends the request with a 400
  response.
\<close>

theorem missing_content_type_stage:
  assumes absent: "headers_get request ''Content-Type'' = None"
    and builtin: "issues traffic ''/traffic/request/unsupported-content-type''
                    = trafficIssues ''/traffic/request/unsupported-content-type''"
  shows "request_descriptor P request = Inr None \<and>
         effective_type None = ''application/octet-stream'' \<and>
         lookup_subtype ''application/octet-stream'' = ''application/octet-stream'' \<and>
         (\<forall>e events. content_type_stage P traffic rd request \<noteq> Inl (Inl e, events)) \<and>
         ((\<exists>type. content_type_stage P traffic rd request = Inr type)
            \<longleftrightarrow> ''application/octet-stream'' \<in> set (toArray (request_mime rd))) \<and>
         (''application/octet-stream'' \<in> set (toArray (request_mime rd)) \<longrightarrow>
            content_type_stage P traffic rd request = Inr ''application/octet-stream'') \<and>
         (''application/octet-stream'' \<notin> set (toArray (request_mime rd)) \<longrightarrow>
            (\<exists>r. content_type_stage P traffic rd request = Inl (Inr r, []) \<and>
                 response_status r = Some (JNumber 400)))"
proof -
  have descriptor: "request_descriptor P request = Inr None"
    using absent by (simp add: request_descriptor_def)
  have key: "lookup_subtype ''application/octet-stream'' = ''application/octet-stream''"
    by (simp add: lookup_subtype_def js_split_absent)
  have factory: "issues traffic ''/traffic/request/unsupported-content-type''
                   = Some unsupported_content_type_factory"
    using builtin by (simp add: trafficIssues_def)
  show ?thesis
  proof (cases "''application/octet-stream'' \<in> set (toArray (request_mime rd))")
    case True
    with descriptor key have "content_type_stage P traffic rd request = Inr ''application/octet-stream''"
      by (simp add: content_type_stage_def effective_type_def Let_def)
    with True descriptor key show ?thesis by (simp add: effective_type_def)
  next
    case False
    with descriptor key factory
    have "\<exists>r. content_type_stage P traffic rd request = Inl (Inr r, []) \<and>
                 response_status r = Some (JNumber 400)"
      by (simp add: content_type_stage_def effective_type_def Let_def Issues_new_def
            unsupported_content_type_factory_def response_status_def)
    with False descriptor key show ?thesis by (auto simp: effective_type_def)
  qed
qed

theorem missing_content_type_stage_witness:
  "headers_get bare_request ''Content-Type'' = None \<and>
   content_type_stage sample_platform (Traffic None) (accepting ''application/octet-stream'')
     bare_request = Inr ''application/octet-stream'' \<and>
   map_sum (map_prod (map_sum id response_status) id) id
     (content_type_stage sample_platform (Traffic None) (accepting ''json'') bare_request)
     = Inl (Inr (Some (JNumber 400)), [])"
  using missing_content_type_stage [where request = bare_request and traffic = "Traffic None"
      and P = sample_platform and rd = "accepting ''json''"]
    missing_content_type_stage [where request = bare_request and traffic = "Traffic None"
      and P = sample_platform and rd = "accepting ''application/octet-stream''"]
  by (simp add: eval_defs sample_defs)

text \<open>
  C5. A route supports only \<^verbatim>\<open>json\<close> and the request carries
  \<^verbatim>\<open>Content-Type: text/plain\<close>. The expected result is a 400 response with the code
  unsupported-content-type; the code throws instead, from the \<^verbatim>\<open>Mime\<close> constructor in
  the content-type stage, whatever mime list the route declares.
\<close>

theorem plain_text_request_throws:
  assumes header: "headers_get (raw_request raw) ''Content-Type'' = Some ''text/plain''"
    and parsed: "content_type_parse P ''text/plain'' = Inr parsed"
    and type: "ptype parsed = ''text/plain''"
    and undeclared: "request_params (def_request defn) = None"
      "request_query (def_request defn) = None" "request_headers (def_request defn) = None"
  shows "route P this defn handler raw = (Inl (Error ''Invalid mime type.''), [])"
proof -
  from type have "CHR ''+'' \<notin> set (ptype parsed)" by simp
  from Mime_without_plus [OF parsed this] header
  have "request_descriptor P (raw_request raw) = Inl (Error ''Invalid mime type.'')"
    by (simp add: request_descriptor_def)
  then have "content_type_stage P (raw_traffic raw) (def_request defn) (raw_request raw)
               = Inl (Inl (Error ''Invalid mime type.''), [])"
    by (simp add: content_type_stage_def)
  with undeclared show ?thesis
    by (simp add: route_def Let_def params_stage_def query_stage_def headers_stage_def)
qed

theorem plain_text_request_throws_witness:
  "content_type_parse sample_platform ''text/plain''
     = Inr \<lparr> ptype = ''text/plain'', parameters = [] \<rparr> \<and>
   route sample_platform (Traffic None)
     \<lparr> def_request = accepting ''json'', def_response = Many [] \<rparr> idle_handler
     (bare_context \<lparr> raw_request := bare_request \<lparr> headers_get := [''Content-Type'' \<mapsto> ''text/plain''] \<rparr> \<rparr>)
   = (Inl (Error ''Invalid mime type.''), [])"
  using plain_text_request_throws [where P = sample_platform and this = "Traffic None"
     and defn = "\<lparr> def_request = accepting ''json'', def_response = Many [] \<rparr>"
     and handler = idle_handler
     and parsed = "\<lparr> ptype = ''text/plain'', parameters = [] \<rparr>"
     and raw = "bare_context \<lparr> raw_request := bare_request \<lparr> headers_get := [''Content-Type'' \<mapsto> ''text/plain''] \<rparr> \<rparr>"]
  by (simp add: sample_defs bare_context_def)

section \<open>The response dispatcher\<close>

text \<open>
  A definition whose mime is one string, that is not raw and is the only one with its
  status and mime: a payload its content schema rejects is logged and replaced by the
  issue response of \<^verbatim>\<open>/traffic/unknown\<close>, with status 500 and a body that is absent or
  the serialized issue, the same response for every rejected payload (on an instance whose
  registry holds the built-in factory).
\<close>

lemma single_mime_payload_replaced:
  assumes declared: "d \<in> set (toArray (def_response defn))"
    and matching: "response_code d = st" "response_mime d = One type"
    and unique: "\<forall>d' \<in> set (toArray (def_response defn)).
                   response_code d' = st \<and> response_mime d' = One type \<longrightarrow> d' = d"
    and not_raw: "response_body d = Content c"
    and fails: "content_shape P c rawData = Failure error"
    and builtin: "issues traffic ''/traffic/unknown'' = trafficIssues ''/traffic/unknown''"
  shows "\<exists>i r events.
           Issues_new (issues traffic) ''/traffic/unknown'' [] = Inr i \<and>
           code i = ''/traffic/unknown'' \<and> status i = 500 \<and>
           responseFactory P traffic defn accept st type rawData hdrs =
             (Inr r, ConsoleError ''Response content is invalid.'' (Some (ZodCause error)) # events) \<and>
           issueResponseFactory P traffic accept i None = (Inr r, events) \<and>
           response_status r = Some (JNumber 500) \<and>
           (body r = JUndefined \<or> seralize P (issue_value i) accept = Inr (Some (body r))) \<and>
           (\<forall>rawData' error' hdrs'. content_shape P c rawData' = Failure error' \<longrightarrow>
              fst (responseFactory P traffic defn accept st type rawData' hdrs') = Inr r)"
proof -
  from find_unique [of d "toArray (def_response defn)"
      "\<lambda>r. response_code r = st \<and> response_mime r = One type"] declared matching unique
  have found: "find (\<lambda>r. response_code r = st \<and> response_mime r = One type)
                 (toArray (def_response defn)) = Some d"
    by blast
  from builtin have "issues traffic ''/traffic/unknown'' = Some unknown_factory"
    by (simp add: trafficIssues_def)
  then obtain i where i: "Issues_new (issues traffic) ''/traffic/unknown'' [] = Inr i"
      "code i = ''/traffic/unknown''" "status i = 500"
    by (simp add: Issues_new_def unknown_factory_def)
  from issueResponseFactory_returns [of P traffic accept i None] obtain r events where
    r: "issueResponseFactory P traffic accept i None = (Inr r, events)"
       "response_status r = Some (JNumber (int (status i)))"
       "body r = JUndefined \<or> seralize P (issue_value i) accept = Inr (Some (body r))"
    by blast
  have replaced: "responseFactory P traffic defn accept st type rawData' hdrs' =
      (Inr r, ConsoleError ''Response content is invalid.'' (Some (ZodCause error')) # events)"
    if "content_shape P c rawData' = Failure error'" for rawData' error' hdrs'
    using found not_raw that i(1) r(1) by (simp add: responseFactory_def)
  have same: "\<forall>rawData' error' hdrs'. content_shape P c rawData' = Failure error' \<longrightarrow>
              fst (responseFactory P traffic defn accept st type rawData' hdrs') = Inr r"
    by (simp add: replaced)
  from i(3) r(2) have five_hundred: "response_status r = Some (JNumber 500)" by simp
  show ?thesis
    apply (rule exI [of _ i])
    apply (rule exI [of _ r])
    apply (rule exI [of _ events])
    using i(1) i(2) i(3) replaced [OF fails] r(1) five_hundred r(3) same
    apply (intro conjI)
    apply assumption+
    done
qed

lemma single_mime_payload_replaced_example:
  "content_shape sample_platform (RawShape [(''name'', sample_string)])
     (JObject [(''name'', JNumber 7)]) = Failure (ZodError [ZodIssue ''Expected string'']) \<and>
   route sample_platform (Traffic None)
     \<lparr> def_request = accepting ''application/octet-stream'',
       def_response = One \<lparr> response_code = 200, response_mime = One ''json'',
                             response_body = Content (RawShape [(''name'', sample_string)]) \<rparr> \<rparr>
     (responding 200 ''json'' (JObject [(''name'', JNumber 7)]) None)
     bare_context
   = (Inr \<lparr> body = JUndefined, init = [(''status'', JNumber 500), (''headers'', JUndefined)] \<rparr>,
      [HandlerInvoked,
       ConsoleError ''Response content is invalid.''
         (Some (ZodCause (ZodError [ZodIssue ''Expected string'']))),
       ConsoleError ''Failed to serialize issue response.''
         (Some (ExnCause (Error ''Invalid mime type.'')))])"
  using single_mime_payload_replaced [where P = sample_platform and traffic = "Traffic None"
      and defn = "\<lparr> def_request = accepting ''application/octet-stream'',
       def_response = One \<lparr> response_code = 200, response_mime = One ''json'',
                             response_body = Content (RawShape [(''name'', sample_string)]) \<rparr> \<rparr>"
      and d = "\<lparr> response_code = 200, response_mime = One ''json'',
                             response_body = Content (RawShape [(''name'', sample_string)]) \<rparr>"
      and st = 200 and type = "''json''" and c = "RawShape [(''name'', sample_string)]"
      and rawData = "JObject [(''name'', JNumber 7)]"
      and error = "ZodError [ZodIssue ''Expected string'']"
      and accept = "''application/json''" and hdrs = None]
  by (simp add: eval_defs sample_defs responding_def bare_context_def)

text \<open>
  C2. A rejected payload should be replaced by the 500 issue response for every response
  definition that is not raw. For a definition that declares its mimes as a list the code
  does not do so: \<^verbatim>\<open>r.mime === type\<close> compares the list with the string of the call,
  so a call with the definition's status and one of its listed mimes finds no definition
  (unless another one has that status and the string as its mime), and reading
  \<^verbatim>\<open>def.raw\<close> throws a \<^verbatim>\<open>TypeError\<close>. Nothing is logged, no \<^verbatim>\<open>/traffic/unknown\<close>
  response is built, and a route whose handler returns the result of the call ends with
  the exception.
\<close>

theorem listed_mime_payload_throws:
  assumes declared: "d \<in> set (toArray (def_response defn))"
    and listed: "response_mime d = Many mimes"
    and matching: "declares d st type"
    and not_raw: "response_body d = Content c"
    and fails: "content_shape P c rawData = Failure error"
    and no_single: "\<forall>d' \<in> set (toArray (def_response defn)).
                      \<not> (response_code d' = st \<and> response_mime d' = One type)"
  shows "responseFactory P traffic defn accept st type rawData hdrs
           = (Inl (TypeError ''def is undefined (reading raw)''), []) \<and>
         (\<forall>result events.
            route P this defn (responding st type rawData hdrs) raw = (result, events) \<and>
            HandlerInvoked \<in> set events \<longrightarrow>
              result = Inl (TypeError ''def is undefined (reading raw)'') \<and>
              events = [HandlerInvoked])"
proof -
  from no_single have none: "find (\<lambda>r. response_code r = st \<and> response_mime r = One type)
                 (toArray (def_response defn)) = None"
    by (simp add: find_None_iff)
  then have thrown: "responseFactory P traffic' defn accept' st type rawData hdrs
           = (Inl (TypeError ''def is undefined (reading raw)''), [])" for traffic' accept'
    by (simp add: responseFactory_def)
  have "result = Inl (TypeError ''def is undefined (reading raw)'') \<and> events = [HandlerInvoked]"
    if "route P this defn (responding st type rawData hdrs) raw = (result, events)"
      and "HandlerInvoked \<in> set events" for result events
  proof -
    from route_invoked [OF that] obtain ctx handled where
      "ctx_response ctx = responseFactory P (raw_traffic raw) defn (accept_of this (raw_request raw))"
      "responding st type rawData hdrs ctx = (result, handled)" "events = HandlerInvoked # handled"
      by blast
    then show ?thesis by (simp add: responding_def thrown)
  qed
  with thrown show ?thesis by blast
qed

theorem listed_mime_payload_throws_witness:
  "declares \<lparr> response_code = 200, response_mime = Many [''json'', ''plain''],
              response_body = Content (RawShape [(''name'', sample_string)]) \<rparr> 200 ''json'' \<and>
   content_shape sample_platform (RawShape [(''name'', sample_string)])
     (JObject [(''name'', JNumber 7)]) = Failure (ZodError [ZodIssue ''Expected string'']) \<and>
   route sample_platform (Traffic None)
     \<lparr> def_request = accepting ''application/octet-stream'',
       def_response = One \<lparr> response_code = 200, response_mime = Many [''json'', ''plain''],
                             response_body = Content (RawShape [(''name'', sample_string)]) \<rparr> \<rparr>
     (responding 200 ''json'' (JObject [(''name'', JNumber 7)]) None)
     bare_context
   = (Inl (TypeError ''def is undefined (reading raw)''), [HandlerInvoked])"
  using listed_mime_payload_throws [where P = sample_platform and this = "Traffic None"
      and defn = "\<lparr> def_request = accepting ''application/octet-stream'',
       def_response = One \<lparr> response_code = 200, response_mime = Many [''json'', ''plain''],
                             response_body = Content (RawShape [(''name'', sample_string)]) \<rparr> \<rparr>"
      and d = "\<lparr> response_code = 200, response_mime = Many [''json'', ''plain''],
                             response_body = Content (RawShape [(''name'', sample_string)]) \<rparr>"
      and mimes = "[''json'', ''plain'']"
      and st = 200 and type = "''json''" and c = "RawShape [(''name'', sample_string)]"
      and rawData = "JObject [(''name'', JNumber 7)]"
      and error = "ZodError [ZodIssue ''Expected string'']"
      and hdrs = None and raw = bare_context]
  by (simp add: eval_defs sample_defs responding_def bare_context_def declares_def)

text \<open>
  C6, as the code has it. When no declared response definition declares the pair of the
  call (none has the status together with the mime, as its mime string or in its mime
  list), the bound response operation throws a \<^verbatim>\<open>TypeError\<close>: nothing is logged and no
  issue response is built. A route whose handler returns the result of that call, once it
  reaches the handler, ends with the same exception and no response.
\<close>

theorem undeclared_response_throws:
  assumes undeclared: "\<forall>d \<in> set (toArray (def_response defn)). \<not> declares d st type"
  shows "responseFactory P traffic defn accept st type rawData hdrs
           = (Inl (TypeError ''def is undefined (reading raw)''), []) \<and>
         (\<forall>result events.
            route P this defn (responding st type rawData hdrs) raw = (result, events) \<and>
            HandlerInvoked \<in> set events \<longrightarrow>
              result = Inl (TypeError ''def is undefined (reading raw)'') \<and>
              events = [HandlerInvoked])"
proof -
  have "\<not> (response_code d = st \<and> response_mime d = One type)"
    if "d \<in> set (toArray (def_response defn))" for d
    using undeclared that by (auto simp: declares_def toArray_def)
  then have none: "find (\<lambda>r. response_code r = st \<and> response_mime r = One type)
                 (toArray (def_response defn)) = None"
    by (simp add: find_None_iff)
  then have thrown: "responseFactory P traffic' defn accept' st type rawData hdrs
           = (Inl (TypeError ''def is undefined (reading raw)''), [])" for traffic' accept'
    by (simp add: responseFactory_def)
  have "result = Inl (TypeError ''def is undefined (reading raw)'') \<and> events = [HandlerInvoked]"
    if "route P this defn (responding st type rawData hdrs) raw = (result, events)"
      and "HandlerInvoked \<in> set events" for result events
  proof -
    from route_invoked [OF that] obtain ctx handled where
      "ctx_response ctx = responseFactory P (raw_traffic raw) defn (accept_of this (raw_request raw))"
      "responding st type rawData hdrs ctx = (result, handled)" "events = HandlerInvoked # handled"
      by blast
    then show ?thesis by (simp add: responding_def thrown)
  qed
  with thrown show ?thesis by blast
qed

theorem undeclared_response_throws_witness:
  "declares \<lparr> response_code = 200, response_mime = Many [''json'', ''plain''],
              response_body = Raw \<rparr> 200 ''json'' \<and>
   \<not> declares \<lparr> response_code = 200, response_mime = Many [''json'', ''plain''],
                response_body = Raw \<rparr> 200 ''xml'' \<and>
   route sample_platform (Traffic None)
     \<lparr> def_request = accepting ''application/octet-stream'',
       def_response = One \<lparr> response_code = 200, response_mime = Many [''json'', ''plain''],
                             response_body = Raw \<rparr> \<rparr>
     (responding 200 ''xml'' (JString ''ok'') None) bare_context
   = (Inl (TypeError ''def is undefined (reading raw)''), [HandlerInvoked])"
  using undeclared_response_throws [where P = sample_platform and this = "Traffic None"
     and defn = "\<lparr> def_request = accepting ''application/octet-stream'',
       def_response = One \<lparr> response_code = 200, response_mime = Many [''json'', ''plain''],
                             response_body = Raw \<rparr> \<rparr>"
     and st = 200 and type = "''xml''" and rawData = "JString ''ok''" and hdrs = None
     and raw = bare_context]
  by (simp add: eval_defs sample_defs responding_def bare_context_def declares_def)

text \<open>
  The call \<^verbatim>\<open>response(404, "json", null)\<close> on a route that declares only (200, json):
  the route throws, and no diagnostic is logged.
\<close>

theorem undeclared_response_counterexample:
  "route sample_platform (Traffic None)
     \<lparr> def_request = accepting ''application/octet-stream'',
       def_response = One \<lparr> response_code = 200, response_mime = One ''json'',
                             response_body = Raw \<rparr> \<rparr>
     (responding 404 ''json'' JNull None) bare_context
   = (Inl (TypeError ''def is undefined (reading raw)''), [HandlerInvoked])"
  by (simp add: eval_defs sample_defs responding_def bare_context_def)

end
